theory Spec2Isabelle
  imports Complex_Main "HOL-Library.Word" "HOL-Library.Signed_Division" "HOL-Library.Monad_Syntax"
begin

section \<open>Machine integers\<close>

text \<open>
  The C++ type \<open>int\<close> is a 32-bit two's complement word: \<open>+\<close>, \<open>-\<close> and \<open>*\<close> wrap
  around and \<open>sint\<close> reads the value. Integer division truncates towards zero; a zero
  divisor and the quotient \<open>INT_MIN / -1\<close> are undefined, here \<open>None\<close>.
  The conversion of an \<open>int\<close> to \<open>size_t\<close> sign-extends to 64 bits.
\<close>

type_synonym int32 = "32 word"

definition int_div :: "int32 \<Rightarrow> int32 \<Rightarrow> int32 option" where
  "int_div a b =
     (if b = 0 \<or> (sint a = - (2 ^ 31) \<and> sint b = - 1) then None
      else Some (word_of_int (sint a sdiv sint b)))"

definition size_t_of_int :: "int32 \<Rightarrow> nat" where
  "size_t_of_int x = unat (signed x :: 64 word)"

section \<open>Layer representations\<close>

text \<open>
  The element type \<open>'f\<close> stands for the 32-bit \<open>float\<close> of the source. The layers only
  store and copy floats, so the type is left open; a freshly built vector holds zeros.
\<close>

record 'f ConvBiasLayer =
  in_channels :: int32
  out_channels :: int32
  kernel_size :: int32
  in_width :: int32
  in_height :: int32
  out_width :: int32
  out_height :: int32
  pconv :: "'f list"
  pbias :: "'f list"

text \<open>
  The constructor. \<open>std::vector<float>(n)\<close> with a negative \<open>int\<close> converted to
  \<open>size_t\<close> throws \<open>std::length_error\<close>, which nothing catches: \<open>None\<close>.
\<close>

definition ConvBiasLayer_new ::
  "int32 \<Rightarrow> int32 \<Rightarrow> int32 \<Rightarrow> int32 \<Rightarrow> int32 \<Rightarrow> ('f::zero) ConvBiasLayer option" where
  "ConvBiasLayer_new in_channels' out_channels' kernel_size' in_w' in_h' =
     (let n = in_channels' * kernel_size' * kernel_size' * out_channels' in
      if sint n < 0 \<or> sint out_channels' < 0 then None
      else Some \<lparr> in_channels = in_channels',
                  out_channels = out_channels',
                  kernel_size = kernel_size',
                  in_width = in_w',
                  in_height = in_h',
                  out_width = in_w' - kernel_size' + 1,
                  out_height = in_h' - kernel_size' + 1,
                  pconv = replicate (size_t_of_int n) 0,
                  pbias = replicate (size_t_of_int out_channels') 0 \<rparr>)"

text \<open>The field \<open>size\<close> of the source is \<open>pool_size\<close> here (\<open>size\<close> is a HOL constant).\<close>

record MaxPoolLayer =
  pool_size :: int32
  stride :: int32

definition MaxPoolLayer_new :: "int32 \<Rightarrow> int32 \<Rightarrow> MaxPoolLayer" where
  "MaxPoolLayer_new size' stride' = \<lparr> pool_size = size', stride = stride' \<rparr>"

text \<open>
  The bias vector of a fully-connected layer is \<open>fc_pbias\<close> here: the source calls it
  \<open>pbias\<close> in both layer structs.
\<close>

record 'f FullyConnectedLayer =
  inputs :: int32
  outputs :: int32
  pneurons :: "'f list"
  fc_pbias :: "'f list"

definition FullyConnectedLayer_new ::
  "int32 \<Rightarrow> int32 \<Rightarrow> ('f::zero) FullyConnectedLayer option" where
  "FullyConnectedLayer_new inputs' outputs' =
     (let n = inputs' * outputs' in
      if sint n < 0 \<or> sint outputs' < 0 then None
      else Some \<lparr> inputs = inputs',
                  outputs = outputs',
                  pneurons = replicate (size_t_of_int n) 0,
                  fc_pbias = replicate (size_t_of_int outputs') 0 \<rparr>)"

subsection \<open>The network of \<open>main\<close> and the pooled tensor shape\<close>

record 'f network =
  conv1 :: "'f ConvBiasLayer"
  pool1 :: MaxPoolLayer
  conv2 :: "'f ConvBiasLayer"
  pool2 :: MaxPoolLayer
  fc1 :: "'f FullyConnectedLayer"
  fc2 :: "'f FullyConnectedLayer"

text \<open>"Create the LeNet network architecture" in \<open>main\<close>.\<close>

definition create_network :: "int32 \<Rightarrow> int32 \<Rightarrow> int32 \<Rightarrow> ('f::zero) network option" where
  "create_network channels width height =
     do {
       c1 \<leftarrow> ConvBiasLayer_new channels 20 5 width height;
       let p1 = MaxPoolLayer_new 2 2;
       w2 \<leftarrow> int_div (out_width c1) (stride p1);
       h2 \<leftarrow> int_div (out_height c1) (stride p1);
       c2 \<leftarrow> ConvBiasLayer_new (out_channels c1) 50 5 w2 h2;
       let p2 = MaxPoolLayer_new 2 2;
       n1 \<leftarrow> int_div (out_channels c2 * out_width c2 * out_height c2) (stride p2 * stride p2);
       f1 \<leftarrow> FullyConnectedLayer_new n1 500;
       f2 \<leftarrow> FullyConnectedLayer_new (outputs f1) 10;
       Some \<lparr> conv1 = c1, pool1 = p1, conv2 = c2, pool2 = p2, fc1 = f1, fc2 = f2 \<rparr>
     }"

text \<open>
  The shape (N, C, H, W) that the constructor of \<open>TrainingContext\<close> gives
  \<open>pool2Tensor\<close>.
\<close>

definition pool2Tensor_shape ::
  "int32 \<Rightarrow> 'f ConvBiasLayer \<Rightarrow> MaxPoolLayer \<Rightarrow> (int32 \<times> int32 \<times> int32 \<times> int32) option"
  where
  "pool2Tensor_shape batch_size c2 p2 =
     do {
       h \<leftarrow> int_div (out_height c2) (stride p2);
       w \<leftarrow> int_div (out_width c2) (stride p2);
       Some (batch_size, out_channels c2, h, w)
     }"

section \<open>Weight files\<close>

text \<open>
  A file is the sequence of floats it holds (a trailing part of a float is not
  modelled); \<open>files\<close> maps a path to its contents and \<open>writable\<close> tells whether
  \<open>fopen(path, "wb")\<close> succeeds. \<open>fopen(path, "rb")\<close> succeeds when the path has
  contents. A call either returns, or leaves the process with an exit code, or ends it
  abnormally (\<open>Fault\<close>: an access outside a buffer, undefined behaviour in C++, or an
  exception that nothing catches).
\<close>

record 'f filesystem =
  files :: "string \<Rightarrow> 'f list option"
  writable :: "string \<Rightarrow> bool"

datatype 'a outcome = Return 'a | Exit int | Fault

text \<open>
  \<open>fread(buf, sizeof(float), n, fp)\<close> stores the first \<open>n\<close> floats of the file, or all
  of them when the file is shorter, at the start of the buffer; the source ignores the
  count it returns. \<open>fwrite(buf, sizeof(float), n, fp)\<close> writes the first \<open>n\<close> floats of
  the buffer. Both are \<open>None\<close> where they would pass the end of the buffer.
\<close>

definition fread :: "'f list \<Rightarrow> nat \<Rightarrow> 'f list \<Rightarrow> 'f list option" where
  "fread buf n file =
     (let got = take n file in
      if length got \<le> length buf then Some (got @ drop (length got) buf) else None)"

definition fwrite :: "'f list \<Rightarrow> nat \<Rightarrow> 'f list option" where
  "fwrite buf n = (if n \<le> length buf then Some (take n buf) else None)"

subsection \<open>Convolutional layer\<close>

definition ConvBiasLayer_FromFile ::
  "'f ConvBiasLayer \<Rightarrow> string \<Rightarrow> 'f filesystem \<Rightarrow> (bool \<times> 'f ConvBiasLayer) option" where
  "ConvBiasLayer_FromFile l fileprefix fs =
     (let ssf = fileprefix @ ''.bin''; ssbf = fileprefix @ ''.bias.bin'' in
      case files fs ssf of
        None \<Rightarrow> Some (False, l)
      | Some wfile \<Rightarrow>
          (case fread (pconv l)
                  (size_t_of_int (in_channels l * out_channels l * kernel_size l * kernel_size l))
                  wfile of
             None \<Rightarrow> None
           | Some w \<Rightarrow>
               (case files fs ssbf of
                  None \<Rightarrow> Some (False, l\<lparr>pconv := w\<rparr>)
                | Some bfile \<Rightarrow>
                    (case fread (pbias l) (size_t_of_int (out_channels l)) bfile of
                       None \<Rightarrow> None
                     | Some b \<Rightarrow> Some (True, l\<lparr>pconv := w, pbias := b\<rparr>)))))"

definition ConvBiasLayer_ToFile ::
  "'f ConvBiasLayer \<Rightarrow> string \<Rightarrow> 'f filesystem \<Rightarrow> 'f filesystem outcome" where
  "ConvBiasLayer_ToFile l fileprefix fs =
     (let ssf = fileprefix @ ''.bin''; ssbf = fileprefix @ ''.bias.bin'' in
      if \<not> writable fs ssf then Exit 2
      else
        (case fwrite (pconv l)
                (size_t_of_int (in_channels l * out_channels l * kernel_size l * kernel_size l)) of
           None \<Rightarrow> Fault
         | Some w \<Rightarrow>
             (let fs1 = fs\<lparr>files := (files fs)(ssf \<mapsto> w)\<rparr> in
              if \<not> writable fs1 ssbf then Exit 2
              else
                (case fwrite (pbias l) (size_t_of_int (out_channels l)) of
                   None \<Rightarrow> Fault
                 | Some b \<Rightarrow> Return (fs1\<lparr>files := (files fs1)(ssbf \<mapsto> b)\<rparr>)))))"

subsection \<open>Fully-connected layer\<close>

definition FullyConnectedLayer_FromFile ::
  "'f FullyConnectedLayer \<Rightarrow> string \<Rightarrow> 'f filesystem \<Rightarrow> (bool \<times> 'f FullyConnectedLayer) option"
  where
  "FullyConnectedLayer_FromFile l fileprefix fs =
     (let ssf = fileprefix @ ''.bin''; ssbf = fileprefix @ ''.bias.bin'' in
      case files fs ssf of
        None \<Rightarrow> Some (False, l)
      | Some wfile \<Rightarrow>
          (case fread (pneurons l) (size_t_of_int (inputs l * outputs l)) wfile of
             None \<Rightarrow> None
           | Some w \<Rightarrow>
               (case files fs ssbf of
                  None \<Rightarrow> Some (False, l\<lparr>pneurons := w\<rparr>)
                | Some bfile \<Rightarrow>
                    (case fread (fc_pbias l) (size_t_of_int (outputs l)) bfile of
                       None \<Rightarrow> None
                     | Some b \<Rightarrow> Some (True, l\<lparr>pneurons := w, fc_pbias := b\<rparr>)))))"

definition FullyConnectedLayer_ToFile ::
  "'f FullyConnectedLayer \<Rightarrow> string \<Rightarrow> 'f filesystem \<Rightarrow> 'f filesystem outcome" where
  "FullyConnectedLayer_ToFile l fileprefix fs =
     (let ssf = fileprefix @ ''.bin''; ssbf = fileprefix @ ''.bias.bin'' in
      if \<not> writable fs ssf then Exit 2
      else
        (case fwrite (pneurons l) (size_t_of_int (inputs l * outputs l)) of
           None \<Rightarrow> Fault
         | Some w \<Rightarrow>
             (let fs1 = fs\<lparr>files := (files fs)(ssf \<mapsto> w)\<rparr> in
              if \<not> writable fs1 ssbf then Exit 2
              else
                (case fwrite (fc_pbias l) (size_t_of_int (outputs l)) of
                   None \<Rightarrow> Fault
                 | Some b \<Rightarrow> Return (fs1\<lparr>files := (files fs1)(ssbf \<mapsto> b)\<rparr>)))))"

text \<open>
  The sizes the constructors give the two vectors of a layer: the element counts that
  \<open>FromFile\<close> and \<open>ToFile\<close> compute from the shape.
\<close>

definition conv_sized :: "'f ConvBiasLayer \<Rightarrow> bool" where
  "conv_sized l \<longleftrightarrow>
     length (pconv l) =
       size_t_of_int (in_channels l * out_channels l * kernel_size l * kernel_size l) \<and>
     length (pbias l) = size_t_of_int (out_channels l)"

definition fc_sized :: "'f FullyConnectedLayer \<Rightarrow> bool" where
  "fc_sized l \<longleftrightarrow>
     length (pneurons l) = size_t_of_int (inputs l * outputs l) \<and>
     length (fc_pbias l) = size_t_of_int (outputs l)"

section \<open>Device buffers and the BLAS calls of the weight updates\<close>

text \<open>
  The arithmetic of the device is modelled on the reals: the rounding of the 32-bit
  floats is left out, and so are infinities and NaN. A backend call is taken to report
  success; what \<open>checkCudaErrors\<close> does with a failure is part of the model of \<open>main\<close>.

  \<open>cublasSaxpy(handle, n, &alpha, x, 1, y, 1)\<close> replaces \<open>y[i]\<close> by
  \<open>alpha * x[i] + y[i]\<close> for \<open>i < n\<close>; \<open>cudaMemset(buf, 0, sizeof(float) * n)\<close> zeroes
  the first \<open>n\<close> floats. Both are \<open>None\<close> where they would pass the end of a buffer.
\<close>

definition cublasSaxpy :: "nat \<Rightarrow> real \<Rightarrow> real list \<Rightarrow> real list \<Rightarrow> real list option" where
  "cublasSaxpy n alpha x y =
     (if n \<le> length x \<and> n \<le> length y
      then Some (map2 (\<lambda>xi yi. alpha * xi + yi) (take n x) (take n y) @ drop n y)
      else None)"

definition cudaMemset :: "real list \<Rightarrow> nat \<Rightarrow> real list option" where
  "cudaMemset buf n = (if n \<le> length buf then Some (replicate n 0 @ drop n buf) else None)"

text \<open>
  The device buffers of \<open>main\<close> that the two updates work on, under the names \<open>main\<close>
  gives them: \<open>d_gp*\<close> the global parameters, \<open>d_gdp*\<close> the dual residuals, \<open>d_p*\<close> the
  local parameters and \<open>d_g*\<close> the gradients. The buffers are 32 separate allocations, so
  no two of them overlap.
\<close>

record device =
  d_gpconv1 :: "real list"
  d_gpconv1bias :: "real list"
  d_gpconv2 :: "real list"
  d_gpconv2bias :: "real list"
  d_gpfc1 :: "real list"
  d_gpfc1bias :: "real list"
  d_gpfc2 :: "real list"
  d_gpfc2bias :: "real list"
  d_gdpconv1 :: "real list"
  d_gdpconv1bias :: "real list"
  d_gdpconv2 :: "real list"
  d_gdpconv2bias :: "real list"
  d_gdpfc1 :: "real list"
  d_gdpfc1bias :: "real list"
  d_gdpfc2 :: "real list"
  d_gdpfc2bias :: "real list"
  d_pconv1 :: "real list"
  d_pconv1bias :: "real list"
  d_pconv2 :: "real list"
  d_pconv2bias :: "real list"
  d_pfc1 :: "real list"
  d_pfc1bias :: "real list"
  d_pfc2 :: "real list"
  d_pfc2bias :: "real list"
  d_gconv1 :: "real list"
  d_gconv1bias :: "real list"
  d_gconv2 :: "real list"
  d_gconv2bias :: "real list"
  d_gfc1 :: "real list"
  d_gfc1bias :: "real list"
  d_gfc2 :: "real list"
  d_gfc2bias :: "real list"

text \<open>The part of \<open>TrainingContext\<close> that the updates read.\<close>

record 'f TrainingContext =
  ref_fc1 :: "'f FullyConnectedLayer"
  ref_fc2 :: "'f FullyConnectedLayer"

text \<open>
  \<open>UpdateLocalWeights\<close>, on the buffers that \<open>main\<close> passes: the parameter \<open>gpconv1\<close> is
  the buffer \<open>d_gpconv1\<close>, and so on for all 32 pointers.
\<close>

definition UpdateLocalWeights ::
  "'f TrainingContext \<Rightarrow> real \<Rightarrow> real \<Rightarrow> 'f ConvBiasLayer \<Rightarrow> 'f ConvBiasLayer \<Rightarrow>
   device \<Rightarrow> device option" where
  "UpdateLocalWeights ctx learning_rate rho conv1' conv2' d0 =
     (let alpha = - learning_rate;
          rho_alpha = - rho * alpha;
          minus_rho_alpha = rho_alpha;
          minus_one = - 1
      in do {
       let d = d0;
       \<comment> \<open>Conv1\<close>
       x \<leftarrow> cudaMemset (d_gdpconv1 d) (length (pconv conv1'));
       let d = d\<lparr>d_gdpconv1 := x\<rparr>;
       x \<leftarrow> cublasSaxpy (length (pconv conv1')) rho_alpha (d_pconv1 d) (d_gdpconv1 d);
       let d = d\<lparr>d_gdpconv1 := x\<rparr>;
       x \<leftarrow> cublasSaxpy (length (pconv conv1')) minus_rho_alpha (d_gpconv1 d) (d_gdpconv1 d);
       let d = d\<lparr>d_gdpconv1 := x\<rparr>;
       x \<leftarrow> cublasSaxpy (length (pconv conv1')) minus_one (d_gdpconv1 d) (d_pconv1 d);
       let d = d\<lparr>d_pconv1 := x\<rparr>;
       x \<leftarrow> cublasSaxpy (length (pconv conv1')) alpha (d_gpconv1 d) (d_pconv1 d);
       let d = d\<lparr>d_pconv1 := x\<rparr>;
       \<comment> \<open>Conv1 bias\<close>
       x \<leftarrow> cudaMemset (d_gdpconv1bias d) (length (pbias conv1'));
       let d = d\<lparr>d_gdpconv1bias := x\<rparr>;
       x \<leftarrow> cublasSaxpy (length (pbias conv1')) rho_alpha (d_pconv1bias d) (d_gdpconv1bias d);
       let d = d\<lparr>d_gdpconv1bias := x\<rparr>;
       x \<leftarrow> cublasSaxpy (length (pbias conv1')) minus_rho_alpha (d_gpconv1bias d) (d_gdpconv1bias d);
       let d = d\<lparr>d_gdpconv1bias := x\<rparr>;
       x \<leftarrow> cublasSaxpy (length (pbias conv1')) minus_one (d_gdpconv1bias d) (d_pconv1bias d);
       let d = d\<lparr>d_pconv1bias := x\<rparr>;
       x \<leftarrow> cublasSaxpy (length (pbias conv1')) alpha (d_gconv1bias d) (d_pconv1bias d);
       let d = d\<lparr>d_pconv1bias := x\<rparr>;
       \<comment> \<open>Conv2\<close>
       x \<leftarrow> cudaMemset (d_gdpconv2 d) (length (pconv conv2'));
       let d = d\<lparr>d_gdpconv2 := x\<rparr>;
       x \<leftarrow> cublasSaxpy (length (pconv conv2')) rho_alpha (d_pconv2 d) (d_gdpconv2 d);
       let d = d\<lparr>d_gdpconv2 := x\<rparr>;
       x \<leftarrow> cublasSaxpy (length (pconv conv2')) minus_rho_alpha (d_gpconv2 d) (d_gdpconv2 d);
       let d = d\<lparr>d_gdpconv2 := x\<rparr>;
       x \<leftarrow> cublasSaxpy (length (pconv conv2')) minus_one (d_gdpconv2 d) (d_pconv2 d);
       let d = d\<lparr>d_pconv2 := x\<rparr>;
       x \<leftarrow> cublasSaxpy (length (pconv conv2')) alpha (d_gconv2 d) (d_pconv2 d);
       let d = d\<lparr>d_pconv2 := x\<rparr>;
       \<comment> \<open>Conv2 bias\<close>
       x \<leftarrow> cudaMemset (d_gdpconv2bias d) (length (pbias conv2'));
       let d = d\<lparr>d_gdpconv2bias := x\<rparr>;
       x \<leftarrow> cublasSaxpy (length (pbias conv2')) rho_alpha (d_pconv2bias d) (d_gdpconv2bias d);
       let d = d\<lparr>d_gdpconv2bias := x\<rparr>;
       x \<leftarrow> cublasSaxpy (length (pbias conv2')) minus_rho_alpha (d_gpconv2 d) (d_gdpconv2bias d);
       let d = d\<lparr>d_gdpconv2bias := x\<rparr>;
       x \<leftarrow> cublasSaxpy (length (pbias conv2')) minus_one (d_gdpconv2bias d) (d_pconv2bias d);
       let d = d\<lparr>d_pconv2bias := x\<rparr>;
       x \<leftarrow> cublasSaxpy (length (pbias conv2')) alpha (d_gconv2bias d) (d_pconv2bias d);
       let d = d\<lparr>d_pconv2bias := x\<rparr>;
       \<comment> \<open>Fully connected 1\<close>
       x \<leftarrow> cudaMemset (d_gfc1 d) (length (pneurons (ref_fc1 ctx)));
       let d = d\<lparr>d_gfc1 := x\<rparr>;
       x \<leftarrow> cublasSaxpy (length (pneurons (ref_fc1 ctx))) rho_alpha (d_pfc1 d) (d_gdpfc1 d);
       let d = d\<lparr>d_gdpfc1 := x\<rparr>;
       x \<leftarrow> cublasSaxpy (length (pneurons (ref_fc1 ctx))) minus_rho_alpha (d_gpfc1 d) (d_gdpfc1 d);
       let d = d\<lparr>d_gdpfc1 := x\<rparr>;
       x \<leftarrow> cublasSaxpy (length (pneurons (ref_fc1 ctx))) minus_one (d_gdpfc1 d) (d_pfc1 d);
       let d = d\<lparr>d_pfc1 := x\<rparr>;
       x \<leftarrow> cublasSaxpy (length (pneurons (ref_fc1 ctx))) alpha (d_gfc1 d) (d_pfc1 d);
       let d = d\<lparr>d_pfc1 := x\<rparr>;
       \<comment> \<open>Fully connected 1 bias\<close>
       x \<leftarrow> cudaMemset (d_gdpfc1bias d) (length (fc_pbias (ref_fc1 ctx)));
       let d = d\<lparr>d_gdpfc1bias := x\<rparr>;
       x \<leftarrow> cublasSaxpy (length (fc_pbias (ref_fc1 ctx))) rho_alpha (d_pfc1bias d) (d_gdpfc1bias d);
       let d = d\<lparr>d_gdpfc1bias := x\<rparr>;
       x \<leftarrow> cublasSaxpy (length (fc_pbias (ref_fc1 ctx))) minus_rho_alpha (d_gpfc1bias d) (d_gdpfc1bias d);
       let d = d\<lparr>d_gdpfc1bias := x\<rparr>;
       x \<leftarrow> cublasSaxpy (length (fc_pbias (ref_fc1 ctx))) minus_one (d_gdpfc1bias d) (d_pfc1bias d);
       let d = d\<lparr>d_pfc1bias := x\<rparr>;
       x \<leftarrow> cublasSaxpy (length (fc_pbias (ref_fc1 ctx))) alpha (d_gfc1bias d) (d_pfc1bias d);
       let d = d\<lparr>d_pfc1bias := x\<rparr>;
       \<comment> \<open>Fully connected 2\<close>
       x \<leftarrow> cudaMemset (d_gdpfc2 d) (length (pneurons (ref_fc2 ctx)));
       let d = d\<lparr>d_gdpfc2 := x\<rparr>;
       x \<leftarrow> cublasSaxpy (length (pneurons (ref_fc2 ctx))) rho_alpha (d_pfc2 d) (d_gdpfc2 d);
       let d = d\<lparr>d_gdpfc2 := x\<rparr>;
       x \<leftarrow> cublasSaxpy (length (pneurons (ref_fc2 ctx))) minus_rho_alpha (d_gpfc2 d) (d_gdpfc2 d);
       let d = d\<lparr>d_gdpfc2 := x\<rparr>;
       x \<leftarrow> cublasSaxpy (length (pneurons (ref_fc2 ctx))) minus_one (d_gdpfc2 d) (d_pfc2 d);
       let d = d\<lparr>d_pfc2 := x\<rparr>;
       x \<leftarrow> cublasSaxpy (length (pneurons (ref_fc2 ctx))) alpha (d_gfc2 d) (d_pfc2 d);
       let d = d\<lparr>d_pfc2 := x\<rparr>;
       \<comment> \<open>Fully connected 2 bias\<close>
       x \<leftarrow> cudaMemset (d_gdpfc2bias d) (length (fc_pbias (ref_fc2 ctx)));
       let d = d\<lparr>d_gdpfc2bias := x\<rparr>;
       x \<leftarrow> cublasSaxpy (length (fc_pbias (ref_fc2 ctx))) rho_alpha (d_pfc2bias d) (d_gdpfc2bias d);
       let d = d\<lparr>d_gdpfc2bias := x\<rparr>;
       x \<leftarrow> cublasSaxpy (length (fc_pbias (ref_fc2 ctx))) minus_rho_alpha (d_gpfc2bias d) (d_gdpfc2bias d);
       let d = d\<lparr>d_gdpfc2bias := x\<rparr>;
       x \<leftarrow> cublasSaxpy (length (fc_pbias (ref_fc2 ctx))) minus_one (d_gdpfc2bias d) (d_pfc2bias d);
       let d = d\<lparr>d_pfc2bias := x\<rparr>;
       x \<leftarrow> cublasSaxpy (length (fc_pbias (ref_fc2 ctx))) alpha (d_gfc2bias d) (d_pfc2bias d);
       let d = d\<lparr>d_pfc2bias := x\<rparr>;
       Some d
     })"

text \<open>
  \<open>UpdateGlobalWeights\<close>, on the buffers that \<open>main\<close> passes: its parameters \<open>pconv1\<close>,
  ... are the global buffers \<open>d_gpconv1\<close>, ... and its parameters \<open>gconv1\<close>, ... are the
  dual residuals \<open>d_gdpconv1\<close>, ...
\<close>

definition UpdateGlobalWeights ::
  "'f TrainingContext \<Rightarrow> real \<Rightarrow> 'f ConvBiasLayer \<Rightarrow> 'f ConvBiasLayer \<Rightarrow>
   device \<Rightarrow> device option" where
  "UpdateGlobalWeights ctx learning_rate conv1' conv2' d0 =
     (let alpha = learning_rate
      in do {
       let d = d0;
       \<comment> \<open>Conv1\<close>
       x \<leftarrow> cublasSaxpy (length (pconv conv1')) alpha (d_gdpconv1 d) (d_gpconv1 d);
       let d = d\<lparr>d_gpconv1 := x\<rparr>;
       x \<leftarrow> cublasSaxpy (length (pbias conv1')) alpha (d_gdpconv1bias d) (d_gpconv1bias d);
       let d = d\<lparr>d_gpconv1bias := x\<rparr>;
       \<comment> \<open>Conv2\<close>
       x \<leftarrow> cublasSaxpy (length (pconv conv2')) alpha (d_gdpconv2 d) (d_gpconv2 d);
       let d = d\<lparr>d_gpconv2 := x\<rparr>;
       x \<leftarrow> cublasSaxpy (length (pbias conv2')) alpha (d_gdpconv2bias d) (d_gpconv2bias d);
       let d = d\<lparr>d_gpconv2bias := x\<rparr>;
       \<comment> \<open>Fully connected\<close>
       x \<leftarrow> cublasSaxpy (length (pneurons (ref_fc1 ctx))) alpha (d_gdpfc1 d) (d_gpfc1 d);
       let d = d\<lparr>d_gpfc1 := x\<rparr>;
       x \<leftarrow> cublasSaxpy (length (fc_pbias (ref_fc1 ctx))) alpha (d_gdpfc1bias d) (d_gpfc1bias d);
       let d = d\<lparr>d_gpfc1bias := x\<rparr>;
       \<comment> \<open>Fully connected 2\<close>
       x \<leftarrow> cublasSaxpy (length (pneurons (ref_fc2 ctx))) alpha (d_gdpfc2 d) (d_gpfc2 d);
       let d = d\<lparr>d_gpfc2 := x\<rparr>;
       x \<leftarrow> cublasSaxpy (length (fc_pbias (ref_fc2 ctx))) alpha (d_gdpfc2bias d) (d_gpfc2bias d);
       let d = d\<lparr>d_gpfc2bias := x\<rparr>;
       Some d
     })"

text \<open>
  The sizes \<open>main\<close> allocates the device buffers with: each buffer has the length of the
  host vector of its layer.
\<close>

definition device_sized ::
  "'f TrainingContext \<Rightarrow> 'f ConvBiasLayer \<Rightarrow> 'f ConvBiasLayer \<Rightarrow> device \<Rightarrow> bool" where
  "device_sized ctx conv1' conv2' d \<longleftrightarrow>
     length (d_gpconv1 d) = length (pconv conv1') \<and>
     length (d_gpconv1bias d) = length (pbias conv1') \<and>
     length (d_gpconv2 d) = length (pconv conv2') \<and>
     length (d_gpconv2bias d) = length (pbias conv2') \<and>
     length (d_gpfc1 d) = length (pneurons (ref_fc1 ctx)) \<and>
     length (d_gpfc1bias d) = length (fc_pbias (ref_fc1 ctx)) \<and>
     length (d_gpfc2 d) = length (pneurons (ref_fc2 ctx)) \<and>
     length (d_gpfc2bias d) = length (fc_pbias (ref_fc2 ctx)) \<and>
     length (d_gdpconv1 d) = length (pconv conv1') \<and>
     length (d_gdpconv1bias d) = length (pbias conv1') \<and>
     length (d_gdpconv2 d) = length (pconv conv2') \<and>
     length (d_gdpconv2bias d) = length (pbias conv2') \<and>
     length (d_gdpfc1 d) = length (pneurons (ref_fc1 ctx)) \<and>
     length (d_gdpfc1bias d) = length (fc_pbias (ref_fc1 ctx)) \<and>
     length (d_gdpfc2 d) = length (pneurons (ref_fc2 ctx)) \<and>
     length (d_gdpfc2bias d) = length (fc_pbias (ref_fc2 ctx)) \<and>
     length (d_pconv1 d) = length (pconv conv1') \<and>
     length (d_pconv1bias d) = length (pbias conv1') \<and>
     length (d_pconv2 d) = length (pconv conv2') \<and>
     length (d_pconv2bias d) = length (pbias conv2') \<and>
     length (d_pfc1 d) = length (pneurons (ref_fc1 ctx)) \<and>
     length (d_pfc1bias d) = length (fc_pbias (ref_fc1 ctx)) \<and>
     length (d_pfc2 d) = length (pneurons (ref_fc2 ctx)) \<and>
     length (d_pfc2bias d) = length (fc_pbias (ref_fc2 ctx)) \<and>
     length (d_gconv1 d) = length (pconv conv1') \<and>
     length (d_gconv1bias d) = length (pbias conv1') \<and>
     length (d_gconv2 d) = length (pconv conv2') \<and>
     length (d_gconv2bias d) = length (pbias conv2') \<and>
     length (d_gfc1 d) = length (pneurons (ref_fc1 ctx)) \<and>
     length (d_gfc1bias d) = length (fc_pbias (ref_fc1 ctx)) \<and>
     length (d_gfc2 d) = length (pneurons (ref_fc2 ctx)) \<and>
     length (d_gfc2bias d) = length (fc_pbias (ref_fc2 ctx))"

section \<open>The message loops of a training iteration\<close>

text \<open>
  Each process runs \<open>main\<close> with its own \<open>rank\<close>. The model follows one process and
  records the point-to-point calls it makes, in program order, as a list of events with
  the peer and the tag. Whether a blocking receive ever completes depends on the other
  processes and is not part of the model.
\<close>

definition COMM_XDATA :: nat where "COMM_XDATA = 0"
definition COMM_XLABEL :: nat where "COMM_XLABEL = 1"
definition COMM_GDCONV1 :: nat where "COMM_GDCONV1 = 14"
definition COMM_GDCONV1BIAS :: nat where "COMM_GDCONV1BIAS = 15"
definition COMM_GDCONV2 :: nat where "COMM_GDCONV2 = 16"
definition COMM_GDCONV2BIAS :: nat where "COMM_GDCONV2BIAS = 17"
definition COMM_GDFC1NEURON :: nat where "COMM_GDFC1NEURON = 18"
definition COMM_GDFC1BIAS :: nat where "COMM_GDFC1BIAS = 19"
definition COMM_GDFC2NEURON :: nat where "COMM_GDFC2NEURON = 20"
definition COMM_GDFC2BIAS :: nat where "COMM_GDFC2BIAS = 21"

datatype event = MPI_Send nat nat | MPI_Recv nat nat

text \<open>\<open>for (int i = 1; i <= rank; i++)\<close> runs its body on \<open>[1..<Suc rank]\<close>.\<close>

fun for_loop :: "nat list \<Rightarrow> (nat \<Rightarrow> 's \<Rightarrow> 's option) \<Rightarrow> 's \<Rightarrow> 's option" where
  "for_loop [] body s = Some s"
| "for_loop (i # js) body s =
     (case body i s of None \<Rightarrow> None | Some s' \<Rightarrow> for_loop js body s')"

text \<open>
  The loop that distributes the mini-batches. \<open>rand() % num_mBatch\<close> divides by zero
  when there is no full mini-batch: \<open>None\<close>.
\<close>

definition fanout_body :: "nat \<Rightarrow> int32 \<Rightarrow> nat \<Rightarrow> event list \<Rightarrow> event list option" where
  "fanout_body rank num_mBatch i tr =
     (if num_mBatch = 0 then None
      else
        (let tr = (if rank = 0 then tr @ [MPI_Send i COMM_XDATA, MPI_Send i COMM_XLABEL] else tr);
             tr = (if rank = i then tr @ [MPI_Recv 0 COMM_XDATA, MPI_Recv 0 COMM_XLABEL] else tr)
         in Some tr))"

definition batch_fanout :: "nat \<Rightarrow> int32 \<Rightarrow> event list option" where
  "batch_fanout rank num_mBatch = for_loop [1..<Suc rank] (fanout_body rank num_mBatch) []"

text \<open>
  The loop that collects the dual residuals. \<open>incoming i tag\<close> is the message that
  process \<open>i\<close> sent with that tag. The coordinator receives it into a host buffer and
  copies the host buffer to the device buffer of the same size; the model stores the
  message in the device buffer directly. A message longer than the posted count is an
  MPI truncation error, which is fatal: \<open>None\<close>.
\<close>

definition MPI_Recv_into :: "real list \<Rightarrow> nat \<Rightarrow> real list \<Rightarrow> real list option" where
  "MPI_Recv_into buf count' msg =
     (if length msg \<le> count' \<and> count' \<le> length buf
      then Some (msg @ drop (length msg) buf) else None)"

definition residual_body ::
  "'f TrainingContext \<Rightarrow> real \<Rightarrow> 'f ConvBiasLayer \<Rightarrow> 'f ConvBiasLayer \<Rightarrow>
   (nat \<Rightarrow> nat \<Rightarrow> real list) \<Rightarrow> nat \<Rightarrow> nat \<Rightarrow> device \<times> event list \<Rightarrow>
   (device \<times> event list) option" where
  "residual_body ctx learningRate conv1' conv2' incoming rank i st =
     (let d = fst st; tr = snd st;
          tr = (if rank = i
                then tr @
                 [MPI_Send 0 COMM_GDCONV1,
                  MPI_Send 0 COMM_GDCONV1BIAS,
                  MPI_Send 0 COMM_GDCONV2,
                  MPI_Send 0 COMM_GDCONV2BIAS,
                  MPI_Send 0 COMM_GDFC1NEURON,
                  MPI_Send 0 COMM_GDFC1BIAS,
                  MPI_Send 0 COMM_GDFC2NEURON,
                  MPI_Send 0 COMM_GDFC2BIAS]
                else tr)
      in if rank = 0
         then do {
             let tr = tr @
                 [MPI_Recv i COMM_GDCONV1,
                  MPI_Recv i COMM_GDCONV1BIAS,
                  MPI_Recv i COMM_GDCONV2,
                  MPI_Recv i COMM_GDCONV2BIAS,
                  MPI_Recv i COMM_GDFC1NEURON,
                  MPI_Recv i COMM_GDFC1BIAS,
                  MPI_Recv i COMM_GDFC2NEURON,
                  MPI_Recv i COMM_GDFC2BIAS];
             x \<leftarrow> MPI_Recv_into (d_gdpconv1 d) (length (pconv conv1')) (incoming i COMM_GDCONV1);
             let d = d\<lparr>d_gdpconv1 := x\<rparr>;
             x \<leftarrow> MPI_Recv_into (d_gdpconv1bias d) (length (pbias conv1')) (incoming i COMM_GDCONV1BIAS);
             let d = d\<lparr>d_gdpconv1bias := x\<rparr>;
             x \<leftarrow> MPI_Recv_into (d_gdpconv2 d) (length (pconv conv2')) (incoming i COMM_GDCONV2);
             let d = d\<lparr>d_gdpconv2 := x\<rparr>;
             x \<leftarrow> MPI_Recv_into (d_gdpconv2bias d) (length (pbias conv2')) (incoming i COMM_GDCONV2BIAS);
             let d = d\<lparr>d_gdpconv2bias := x\<rparr>;
             x \<leftarrow> MPI_Recv_into (d_gdpfc1 d) (length (pneurons (ref_fc1 ctx))) (incoming i COMM_GDFC1NEURON);
             let d = d\<lparr>d_gdpfc1 := x\<rparr>;
             x \<leftarrow> MPI_Recv_into (d_gdpfc1bias d) (length (fc_pbias (ref_fc1 ctx))) (incoming i COMM_GDFC1BIAS);
             let d = d\<lparr>d_gdpfc1bias := x\<rparr>;
             x \<leftarrow> MPI_Recv_into (d_gdpfc2 d) (length (pneurons (ref_fc2 ctx))) (incoming i COMM_GDFC2NEURON);
             let d = d\<lparr>d_gdpfc2 := x\<rparr>;
             x \<leftarrow> MPI_Recv_into (d_gdpfc2bias d) (length (fc_pbias (ref_fc2 ctx))) (incoming i COMM_GDFC2BIAS);
             let d = d\<lparr>d_gdpfc2bias := x\<rparr>;
             d \<leftarrow> UpdateGlobalWeights ctx learningRate conv1' conv2' d;
             Some (d, tr)
           }
         else Some (d, tr))"

definition residual_collection ::
  "'f TrainingContext \<Rightarrow> real \<Rightarrow> 'f ConvBiasLayer \<Rightarrow> 'f ConvBiasLayer \<Rightarrow>
   (nat \<Rightarrow> nat \<Rightarrow> real list) \<Rightarrow> nat \<Rightarrow> device \<times> event list \<Rightarrow>
   (device \<times> event list) option" where
  "residual_collection ctx learningRate conv1' conv2' incoming rank st =
     for_loop [1..<Suc rank] (residual_body ctx learningRate conv1' conv2' incoming rank) st"

text \<open>The eight messages of process \<open>i\<close> have the sizes their receives post.\<close>

definition messages_sized ::
  "'f TrainingContext \<Rightarrow> 'f ConvBiasLayer \<Rightarrow> 'f ConvBiasLayer \<Rightarrow> (nat \<Rightarrow> nat \<Rightarrow> real list) \<Rightarrow>
   nat \<Rightarrow> bool" where
  "messages_sized ctx c1 c2 incoming i \<longleftrightarrow>
     length (incoming i COMM_GDCONV1) = length (pconv c1) \<and>
     length (incoming i COMM_GDCONV1BIAS) = length (pbias c1) \<and>
     length (incoming i COMM_GDCONV2) = length (pconv c2) \<and>
     length (incoming i COMM_GDCONV2BIAS) = length (pbias c2) \<and>
     length (incoming i COMM_GDFC1NEURON) = length (pneurons (ref_fc1 ctx)) \<and>
     length (incoming i COMM_GDFC1BIAS) = length (fc_pbias (ref_fc1 ctx)) \<and>
     length (incoming i COMM_GDFC2NEURON) = length (pneurons (ref_fc2 ctx)) \<and>
     length (incoming i COMM_GDFC2BIAS) = length (fc_pbias (ref_fc2 ctx))"

section \<open>Flags, the learning rate and the exit code of \<open>main\<close>\<close>

record flags =
  FLAGS_gpu :: int32
  FLAGS_iterations :: int32
  FLAGS_save_data :: bool
  FLAGS_learning_rate :: real
  FLAGS_lr_gamma :: real
  FLAGS_lr_power :: real

text \<open>
  \<open>pow(x, y)\<close> on doubles, as far as its value is a real number: \<open>None\<close> stands for an
  infinite result or NaN.
\<close>

definition pow :: "real \<Rightarrow> real \<Rightarrow> real option" where
  "pow x y =
     (if 0 < x then Some (x powr y)
      else if y = real_of_int \<lfloor>y\<rfloor> then
        (if x = 0 \<and> y < 0 then None else Some (x powi \<lfloor>y\<rfloor>))
      else if x = 0 \<and> 0 < y then Some 0
      else None)"

text \<open>"Compute learning rate" in the training loop, for the loop counter \<open>iter\<close>.\<close>

definition learningRate :: "flags \<Rightarrow> int32 \<Rightarrow> real option" where
  "learningRate fl iter =
     map_option (\<lambda>p. FLAGS_learning_rate fl * p)
       (pow (1 + FLAGS_lr_gamma fl * real_of_int (sint iter)) (- FLAGS_lr_power fl))"

text \<open>
  What \<open>main\<close> meets in one process: the rank, the four results of \<open>ReadUByteDataset\<close>
  (rank 0 reads the sizes first and the data second), the image size, the status and the
  count that \<open>cudaGetDeviceCount\<close> gives, whether every backend call of a phase reports
  success (\<open>checkCudaErrors\<close> and \<open>checkCUDNN\<close> leave with \<open>exit(1)\<close> otherwise), the
  network with the trained weights copied back from the device, and the file system.
  Loading pretrained weights cannot end the process (\<open>FromFile\<close> only reports failure)
  and is left out. Memory allocation and the MPI calls are taken to return, as they do
  in a run with a single process.
\<close>

record 'f run_env =
  env_rank :: nat
  train_sizes :: nat
  test_sizes :: nat
  train_data :: nat
  test_data :: nat
  width :: nat
  height :: nat
  getDeviceCount_status :: int
  num_gpus :: int32
  training_ok :: bool
  save_copy_ok :: bool
  trained :: "'f network \<Rightarrow> 'f network"
  disk :: "'f filesystem"
  classify_ok :: bool






section \<open>The formulas of the specification\<close>

text \<open>
  Written from the words of the specification, to compare the code with: plain SGD,
  \<open>local - learning_rate * g\<close>; the dual residual, the \<open>\<rho>\<close>-scaled difference between the
  local and the global weights combined with the \<open>\<rho>\<close>-scaled gradient of opposite sign;
  the learning-rate schedule, \<open>base_rate * (1 + \<gamma> * iteration) ^ (- power)\<close>.
\<close>

definition spec_sgd :: "real \<Rightarrow> real list \<Rightarrow> real list \<Rightarrow> real list" where
  "spec_sgd learning_rate local g = map2 (\<lambda>p gr. p - learning_rate * gr) local g"

definition spec_dual_residual ::
  "real \<Rightarrow> real list \<Rightarrow> real list \<Rightarrow> real list \<Rightarrow> real list" where
  "spec_dual_residual rho local global g =
     map2 (\<lambda>lg gr. rho * (fst lg - snd lg) - rho * gr) (zip local global) g"

definition spec_learning_rate :: "real \<Rightarrow> real \<Rightarrow> real \<Rightarrow> nat \<Rightarrow> real" where
  "spec_learning_rate base_rate gamma lr_power iteration =
     base_rate * (1 + gamma * real iteration) powr (- lr_power)"

section \<open>Vector form and small instances\<close>

text \<open>\<open>axpy a x y\<close> is \<open>a * x + y\<close> elementwise: what a \<open>cublasSaxpy\<close> within bounds leaves in \<open>y\<close>.\<close>

definition axpy :: "real \<Rightarrow> real list \<Rightarrow> real list \<Rightarrow> real list" where
  "axpy a x y = map2 (\<lambda>xi yi. a * xi + yi) x y"

text \<open>
  A network whose eight parameter tensors have one element each, and a device for it
  with local weight 1, global weight 2, gradient 3 and a stale residual 7 in every tensor.
\<close>

definition unit_conv :: "real ConvBiasLayer" where
  "unit_conv = \<lparr> in_channels = 1, out_channels = 1, kernel_size = 1, in_width = 1,
                 in_height = 1, out_width = 1, out_height = 1, pconv = [0], pbias = [0] \<rparr>"

definition unit_fc :: "real FullyConnectedLayer" where
  "unit_fc = \<lparr> inputs = 1, outputs = 1, pneurons = [0], fc_pbias = [0] \<rparr>"

definition unit_ctx :: "real TrainingContext" where
  "unit_ctx = \<lparr> ref_fc1 = unit_fc, ref_fc2 = unit_fc \<rparr>"

definition unit_device :: device where
  "unit_device =
     \<lparr> d_gpconv1 = [2], d_gpconv1bias = [2], d_gpconv2 = [2], d_gpconv2bias = [2],
       d_gpfc1 = [2], d_gpfc1bias = [2], d_gpfc2 = [2], d_gpfc2bias = [2],
       d_gdpconv1 = [7], d_gdpconv1bias = [7], d_gdpconv2 = [7], d_gdpconv2bias = [7],
       d_gdpfc1 = [7], d_gdpfc1bias = [7], d_gdpfc2 = [7], d_gdpfc2bias = [7],
       d_pconv1 = [1], d_pconv1bias = [1], d_pconv2 = [1], d_pconv2bias = [1],
       d_pfc1 = [1], d_pfc1bias = [1], d_pfc2 = [1], d_pfc2bias = [1],
       d_gconv1 = [3], d_gconv1bias = [3], d_gconv2 = [3], d_gconv2bias = [3],
       d_gfc1 = [3], d_gfc1bias = [3], d_gfc2 = [3], d_gfc2bias = [3] \<rparr>"

section \<open>Shape arithmetic\<close>

lemma sint_sub_add1:
  fixes w k :: int32
  assumes "0 < sint k" "sint k \<le> sint w"
  shows "sint (w - k + 1) = sint w - sint k + 1"
proof -
  have "sint w < 2 ^ 31" using sint_lt [of w] by simp
  with assms have r: "- (2 ^ 31) \<le> sint w - sint k + 1" "sint w - sint k + 1 < 2 ^ 31" by auto
  have "w - k + 1 = word_of_int (sint w - sint k + 1)" by simp
  then have "sint (w - k + 1) = signed_take_bit 31 (sint w - sint k + 1)"
    by (simp only: sint_sbintrunc') simp
  also have "\<dots> = sint w - sint k + 1" using r by (intro signed_take_bit_int_eq_self) auto
  finally show ?thesis .
qed

lemma int_div_le_self:
  fixes a s :: int
  assumes "0 \<le> a" "0 < s"
  shows "a div s \<le> a"
proof -
  have nn: "0 \<le> a div s" using assms by (simp add: pos_imp_zdiv_nonneg_iff)
  have "a div s * 1 \<le> a div s * s" using nn assms(2) by (intro mult_left_mono) auto
  also have "\<dots> = a - a mod s" by (simp add: minus_mod_eq_div_mult)
  also have "\<dots> \<le> a" using assms(2) by simp
  finally show ?thesis by simp
qed

lemma sint_int_div:
  fixes a s :: int32
  assumes "0 \<le> sint a" "0 < sint s"
  shows "\<exists>q. int_div a s = Some q \<and> sint q = sint a div sint s"
proof -
  have q: "sint a sdiv sint s = sint a div sint s"
    using assms by (simp add: signed_divide_int_def sgn_if)
  have lo: "0 \<le> sint a div sint s" using assms by (simp add: pos_imp_zdiv_nonneg_iff)
  have "sint a div sint s \<le> sint a" using assms by (rule int_div_le_self)
  moreover have "sint a < 2 ^ 31" using sint_lt [of a] by simp
  ultimately have hi: "sint a div sint s < 2 ^ 31" by linarith
  have nz: "s \<noteq> 0" using assms(2) by auto
  have d: "int_div a s = Some (word_of_int (sint a div sint s))"
    using assms nz unfolding int_div_def q by simp
  have "sint (word_of_int (sint a div sint s) :: int32) = signed_take_bit 31 (sint a div sint s)"
    by (simp only: sint_sbintrunc') simp
  also have "\<dots> = sint a div sint s"
    using lo hi by (intro signed_take_bit_int_eq_self) auto
  finally show ?thesis using d by simp
qed

lemma ConvBiasLayer_new_dims:
  assumes "ConvBiasLayer_new ic oc k w h = Some l"
  shows "out_width l = w - k + 1" "out_height l = h - k + 1" "in_width l = w" "in_height l = h"
        "out_channels l = oc" "kernel_size l = k" "in_channels l = ic"
  using assms by (auto simp: ConvBiasLayer_new_def Let_def split: if_splits)

lemma create_network_layers:
  assumes "create_network ch w h = Some net"
  shows "ConvBiasLayer_new ch 20 5 w h = Some (conv1 net)"
    and "\<exists>w2 h2. int_div (out_width (conv1 net)) 2 = Some w2 \<and>
           int_div (out_height (conv1 net)) 2 = Some h2 \<and>
           ConvBiasLayer_new 20 50 5 w2 h2 = Some (conv2 net)"
    and "stride (pool1 net) = 2" and "stride (pool2 net) = 2"
proof -
  from assms obtain c1 w2 h2 c2 f1 f2 where
    c1: "ConvBiasLayer_new ch 20 5 w h = Some c1" and
    w2: "int_div (out_width c1) 2 = Some w2" and
    h2: "int_div (out_height c1) 2 = Some h2" and
    c2: "ConvBiasLayer_new (out_channels c1) 50 5 w2 h2 = Some c2" and
    net: "net = \<lparr> conv1 = c1, pool1 = MaxPoolLayer_new 2 2, conv2 = c2,
                  pool2 = MaxPoolLayer_new 2 2, fc1 = f1, fc2 = f2 \<rparr>"
    unfolding create_network_def MaxPoolLayer_new_def Let_def
    by (auto split: Option.bind_splits)
  have oc: "out_channels c1 = 20" using ConvBiasLayer_new_dims(5) [OF c1] .
  show "ConvBiasLayer_new ch 20 5 w h = Some (conv1 net)" using c1 net by simp
  show "\<exists>w2 h2. int_div (out_width (conv1 net)) 2 = Some w2 \<and>
           int_div (out_height (conv1 net)) 2 = Some h2 \<and>
           ConvBiasLayer_new 20 50 5 w2 h2 = Some (conv2 net)"
    using w2 h2 c2 oc net by simp
  show "stride (pool1 net) = 2" "stride (pool2 net) = 2"
    using net by (simp_all add: MaxPoolLayer_new_def)
qed

lemma conv_dims:
  fixes l :: "'f::zero ConvBiasLayer"
  shows "ConvBiasLayer_new ic oc k w h = Some l \<and> 0 < sint k \<and> sint k \<le> sint w \<and> sint k \<le> sint h \<longrightarrow>
      sint (out_width l) = sint w - sint k + 1 \<and> sint (out_height l) = sint h - sint k + 1"
proof
  assume a: "ConvBiasLayer_new ic oc k w h = Some l \<and> 0 < sint k \<and> sint k \<le> sint w \<and> sint k \<le> sint h"
  note D = ConvBiasLayer_new_dims [OF a [THEN conjunct1]]
  from a show "sint (out_width l) = sint w - sint k + 1 \<and> sint (out_height l) = sint h - sint k + 1"
    unfolding D(1,2) by (simp add: sint_sub_add1)
qed

lemma pool2_dims:
  "0 \<le> sint (out_height c2) \<and> 0 \<le> sint (out_width c2) \<and> 0 < sint (stride p2) \<longrightarrow>
      (\<exists>ph pw. pool2Tensor_shape n c2 p2 = Some (n, out_channels c2, ph, pw) \<and>
         sint ph = sint (out_height c2) div sint (stride p2) \<and>
         sint pw = sint (out_width c2) div sint (stride p2))"
proof
  assume a: "0 \<le> sint (out_height c2) \<and> 0 \<le> sint (out_width c2) \<and> 0 < sint (stride p2)"
  from a sint_int_div [of "out_height c2" "stride p2"]
  obtain ph where ph: "int_div (out_height c2) (stride p2) = Some ph"
      "sint ph = sint (out_height c2) div sint (stride p2)" by auto
  from a sint_int_div [of "out_width c2" "stride p2"]
  obtain pw where pw: "int_div (out_width c2) (stride p2) = Some pw"
      "sint pw = sint (out_width c2) div sint (stride p2)" by auto
  from ph pw show "\<exists>ph pw. pool2Tensor_shape n c2 p2 = Some (n, out_channels c2, ph, pw) \<and>
         sint ph = sint (out_height c2) div sint (stride p2) \<and>
         sint pw = sint (out_width c2) div sint (stride p2)"
    by (simp add: pool2Tensor_shape_def)
qed

lemma network_dims:
  fixes net :: "'h::zero network"
  shows "create_network ch iw ih = Some net \<and> 5 \<le> sint iw \<and> 5 \<le> sint ih \<longrightarrow>
      sint (out_width (conv1 net)) = sint iw - 5 + 1 \<and>
      sint (out_height (conv1 net)) = sint ih - 5 + 1 \<and>
      sint (in_width (conv2 net)) = sint (out_width (conv1 net)) div sint (stride (pool1 net)) \<and>
      sint (in_height (conv2 net)) = sint (out_height (conv1 net)) div sint (stride (pool1 net))"
proof
  assume a: "create_network ch iw ih = Some net \<and> 5 \<le> sint iw \<and> 5 \<le> sint ih"
  note L = create_network_layers [OF a [THEN conjunct1]]
  note D1 = ConvBiasLayer_new_dims [OF L(1)]
  from L(2) obtain w2 h2 where
    w2: "int_div (out_width (conv1 net)) 2 = Some w2" and
    h2: "int_div (out_height (conv1 net)) 2 = Some h2" and
    c2: "ConvBiasLayer_new 20 50 5 w2 h2 = Some (conv2 net)" by blast
  note D2 = ConvBiasLayer_new_dims [OF c2]
  have five: "sint (5 :: int32) = 5" "sint (2 :: int32) = 2" by simp_all
  have w1: "sint (out_width (conv1 net)) = sint iw - 5 + 1"
    unfolding D1(1) using sint_sub_add1 [of 5 iw] a by (simp add: five)
  have h1: "sint (out_height (conv1 net)) = sint ih - 5 + 1"
    unfolding D1(2) using sint_sub_add1 [of 5 ih] a by (simp add: five)
  have "sint w2 = sint (out_width (conv1 net)) div 2"
    using sint_int_div [of "out_width (conv1 net)" 2] w1 w2 a by (simp add: five)
  then have iw2: "sint (in_width (conv2 net)) = sint (out_width (conv1 net)) div 2"
    unfolding D2(3) .
  have "sint h2 = sint (out_height (conv1 net)) div 2"
    using sint_int_div [of "out_height (conv1 net)" 2] h1 h2 a by (simp add: five)
  then have ih2: "sint (in_height (conv2 net)) = sint (out_height (conv1 net)) div 2"
    unfolding D2(4) .
  show "sint (out_width (conv1 net)) = sint iw - 5 + 1 \<and>
      sint (out_height (conv1 net)) = sint ih - 5 + 1 \<and>
      sint (in_width (conv2 net)) = sint (out_width (conv1 net)) div sint (stride (pool1 net)) \<and>
      sint (in_height (conv2 net)) = sint (out_height (conv1 net)) div sint (stride (pool1 net))"
    unfolding L(3) five using w1 h1 iw2 ih2 by simp
qed

text \<open>
  Claim C6. A convolution layer built with a kernel that is positive and not larger than
  the input has output width and height \<open>in - kernel + 1\<close>; the pooled tensor after a
  layer has height and width \<open>floor (in / stride)\<close> for a positive stride; and in the
  network of \<open>main\<close> the first pooling stage hands the second convolution
  \<open>floor (in / stride)\<close> of the first convolution's output. (\<open>div\<close> on \<open>int\<close> rounds
  down.)
\<close>

theorem conv_pool_output_dims:
  fixes l :: "'f::zero ConvBiasLayer" and c2 :: "'g ConvBiasLayer" and net :: "'h::zero network"
  shows
  "(ConvBiasLayer_new ic oc k w h = Some l \<and> 0 < sint k \<and> sint k \<le> sint w \<and> sint k \<le> sint h \<longrightarrow>
      sint (out_width l) = sint w - sint k + 1 \<and> sint (out_height l) = sint h - sint k + 1) \<and>
   (0 \<le> sint (out_height c2) \<and> 0 \<le> sint (out_width c2) \<and> 0 < sint (stride p2) \<longrightarrow>
      (\<exists>ph pw. pool2Tensor_shape n c2 p2 = Some (n, out_channels c2, ph, pw) \<and>
         sint ph = sint (out_height c2) div sint (stride p2) \<and>
         sint pw = sint (out_width c2) div sint (stride p2))) \<and>
   (create_network ch iw ih = Some net \<and> 5 \<le> sint iw \<and> 5 \<le> sint ih \<longrightarrow>
      sint (out_width (conv1 net)) = sint iw - 5 + 1 \<and>
      sint (out_height (conv1 net)) = sint ih - 5 + 1 \<and>
      sint (in_width (conv2 net)) = sint (out_width (conv1 net)) div sint (stride (pool1 net)) \<and>
      sint (in_height (conv2 net)) = sint (out_height (conv1 net)) div sint (stride (pool1 net)))"
  by (rule conjI [OF conv_dims conjI [OF pool2_dims network_dims]])

text \<open>The theorem at the second convolution of LeNet and at a 28 x 28 input.\<close>

lemma conv_ex: "\<exists>l. ConvBiasLayer_new 20 50 5 12 12 = Some (l :: 32 word ConvBiasLayer)"
  by (simp add: ConvBiasLayer_new_def)

lemma net_ex: "\<exists>l. create_network 1 28 28 = Some (l :: 32 word network)"
  by (simp add: create_network_def ConvBiasLayer_new_def FullyConnectedLayer_new_def MaxPoolLayer_new_def int_div_def signed_divide_int_def Let_def)

theorem conv_pool_output_dims_witness:
  "sint (out_width (the (ConvBiasLayer_new 20 50 5 12 12 :: 32 word ConvBiasLayer option))) = 8 \<and>
   sint (out_height (the (ConvBiasLayer_new 20 50 5 12 12 :: 32 word ConvBiasLayer option))) = 8 \<and>
   pool2Tensor_shape 64
       (the (ConvBiasLayer_new 20 50 5 12 12 :: 32 word ConvBiasLayer option))
       (MaxPoolLayer_new 2 2) = Some (64, 50, 4, 4) \<and>
   sint (out_width (conv1 (the (create_network 1 28 28 :: 32 word network option)))) = 24 \<and>
   sint (in_width (conv2 (the (create_network 1 28 28 :: 32 word network option)))) = 12"
proof -
  let ?l = "the (ConvBiasLayer_new 20 50 5 12 12 :: 32 word ConvBiasLayer option)"
  let ?p = "MaxPoolLayer_new 2 2"
  let ?net = "the (create_network 1 28 28 :: 32 word network option)"
  note T = conv_pool_output_dims [of 20 50 5 12 12 ?l ?l ?p 64 1 28 28 ?net]
  have l: "ConvBiasLayer_new 20 50 5 12 12 = Some ?l" using conv_ex by auto
  have net: "create_network 1 28 28 = Some ?net" using net_ex by auto
  have h1: "ConvBiasLayer_new 20 50 5 12 12 = Some ?l \<and> 0 < sint (5 :: int32) \<and>
            sint (5 :: int32) \<le> sint (12 :: int32) \<and> sint (5 :: int32) \<le> sint (12 :: int32)"
    using l by simp
  from T [THEN conjunct1, rule_format, OF h1]
  have c: "sint (out_width ?l) = 8" "sint (out_height ?l) = 8" by simp_all
  have h2: "0 \<le> sint (out_height ?l) \<and> 0 \<le> sint (out_width ?l) \<and> 0 < sint (stride ?p)"
    using c by (simp add: MaxPoolLayer_new_def)
  from T [THEN conjunct2, THEN conjunct1, rule_format, OF h2]
  obtain ph pw where s: "pool2Tensor_shape 64 ?l ?p = Some (64, out_channels ?l, ph, pw)"
    and "sint ph = sint (out_height ?l) div sint (stride ?p)"
    and "sint pw = sint (out_width ?l) div sint (stride ?p)" by blast
  then have "sint ph = 4" "sint pw = 4" using c by (simp_all add: MaxPoolLayer_new_def)
  then have e: "sint ph = sint (4 :: int32)" "sint pw = sint (4 :: int32)" by simp_all
  have "ph = 4" using e(1) by (rule signed_word_eqI)
  moreover have "pw = 4" using e(2) by (rule signed_word_eqI)
  moreover have "out_channels ?l = 50" using ConvBiasLayer_new_dims(5) [OF l] .
  ultimately have p: "pool2Tensor_shape 64 ?l ?p = Some (64, 50, 4, 4)" using s by simp
  have h3: "create_network 1 28 28 = Some ?net \<and> 5 \<le> sint (28 :: int32) \<and> 5 \<le> sint (28 :: int32)"
    using net by simp
  from T [THEN conjunct2, THEN conjunct2, rule_format, OF h3]
  have n: "sint (out_width (conv1 ?net)) = 24" "sint (in_width (conv2 ?net)) = 12"
    using create_network_layers(3) [OF net] by simp_all
  from c p n show ?thesis by blast
qed

section \<open>Weight files: round trip and failure\<close>

lemma size_t_of_int_numeral:
  "size_t_of_int 0 = 0" "size_t_of_int 1 = 1" "size_t_of_int 2 = 2"
  by (simp_all add: size_t_of_int_def)



lemma fread_all: "length file = n \<Longrightarrow> length buf = n \<Longrightarrow> fread buf n file = Some file"
  by (simp add: fread_def)

lemma conv_roundtrip:
  assumes save: "ConvBiasLayer_ToFile l p fs = Return fs'"
    and sz: "conv_sized l" "conv_sized l'"
    and shape: "in_channels l' = in_channels l" "out_channels l' = out_channels l"
               "kernel_size l' = kernel_size l"
  shows "ConvBiasLayer_FromFile l' p fs' = Some (True, l'\<lparr>pconv := pconv l, pbias := pbias l\<rparr>)"
proof -
  from save sz(1) have fs': "files fs' (p @ ''.bin'') = Some (pconv l)"
      "files fs' (p @ ''.bias.bin'') = Some (pbias l)"
    by (auto simp: ConvBiasLayer_ToFile_def Let_def fwrite_def conv_sized_def
             split: if_splits option.splits)
  from sz shape have len: "length (pconv l') = length (pconv l)" "length (pbias l') = length (pbias l)"
    by (simp_all add: conv_sized_def)
  have "fread (pconv l') (length (pconv l)) (pconv l) = Some (pconv l)"
       "fread (pbias l') (length (pbias l)) (pbias l) = Some (pbias l)"
    using len by (simp_all add: fread_all)
  then show ?thesis using fs' sz(1) shape
    by (simp add: ConvBiasLayer_FromFile_def Let_def conv_sized_def)
qed

lemma fc_roundtrip:
  assumes save: "FullyConnectedLayer_ToFile l p fs = Return fs'"
    and sz: "fc_sized l" "fc_sized l'"
    and shape: "inputs l' = inputs l" "outputs l' = outputs l"
  shows "FullyConnectedLayer_FromFile l' p fs' =
           Some (True, l'\<lparr>pneurons := pneurons l, fc_pbias := fc_pbias l\<rparr>)"
proof -
  from save sz(1) have fs': "files fs' (p @ ''.bin'') = Some (pneurons l)"
      "files fs' (p @ ''.bias.bin'') = Some (fc_pbias l)"
    by (auto simp: FullyConnectedLayer_ToFile_def Let_def fwrite_def fc_sized_def
             split: if_splits option.splits)
  from sz shape have len: "length (pneurons l') = length (pneurons l)"
      "length (fc_pbias l') = length (fc_pbias l)"
    by (simp_all add: fc_sized_def)
  have "fread (pneurons l') (length (pneurons l)) (pneurons l) = Some (pneurons l)"
       "fread (fc_pbias l') (length (fc_pbias l)) (fc_pbias l) = Some (fc_pbias l)"
    using len by (simp_all add: fread_all)
  then show ?thesis using fs' sz(1) shape
    by (simp add: FullyConnectedLayer_FromFile_def Let_def fc_sized_def)
qed

text \<open>
  Claim C8. For a layer of either kind whose vectors have the sizes of its shape, and
  any contents, \<open>ToFile\<close> with both files writable returns after storing the weights
  in \<open><prefix>.bin\<close> and the bias in \<open><prefix>.bias.bin\<close>; \<open>FromFile\<close> on the result,
  into a layer of the same shape, reports success and leaves the weight and bias vectors
  equal to the ones saved.
\<close>

theorem weight_file_roundtrip:
  "(conv_sized cl \<and> conv_sized cl' \<and> in_channels cl' = in_channels cl \<and>
    out_channels cl' = out_channels cl \<and> kernel_size cl' = kernel_size cl \<and>
    writable fs (p @ ''.bin'') \<and> writable fs (p @ ''.bias.bin'') \<longrightarrow>
      ConvBiasLayer_ToFile cl p fs =
        Return (fs\<lparr>files := (files fs)(p @ ''.bin'' \<mapsto> pconv cl, p @ ''.bias.bin'' \<mapsto> pbias cl)\<rparr>) \<and>
      ConvBiasLayer_FromFile cl' p
        (fs\<lparr>files := (files fs)(p @ ''.bin'' \<mapsto> pconv cl, p @ ''.bias.bin'' \<mapsto> pbias cl)\<rparr>) =
        Some (True, cl'\<lparr>pconv := pconv cl, pbias := pbias cl\<rparr>)) \<and>
   (fc_sized fl \<and> fc_sized fl' \<and> inputs fl' = inputs fl \<and> outputs fl' = outputs fl \<and>
    writable fs (p @ ''.bin'') \<and> writable fs (p @ ''.bias.bin'') \<longrightarrow>
      FullyConnectedLayer_ToFile fl p fs =
        Return (fs\<lparr>files := (files fs)(p @ ''.bin'' \<mapsto> pneurons fl, p @ ''.bias.bin'' \<mapsto> fc_pbias fl)\<rparr>) \<and>
      FullyConnectedLayer_FromFile fl' p
        (fs\<lparr>files := (files fs)(p @ ''.bin'' \<mapsto> pneurons fl, p @ ''.bias.bin'' \<mapsto> fc_pbias fl)\<rparr>) =
        Some (True, fl'\<lparr>pneurons := pneurons fl, fc_pbias := fc_pbias fl\<rparr>))"
proof (intro conjI impI)
  assume a: "conv_sized cl \<and> conv_sized cl' \<and> in_channels cl' = in_channels cl \<and>
    out_channels cl' = out_channels cl \<and> kernel_size cl' = kernel_size cl \<and>
    writable fs (p @ ''.bin'') \<and> writable fs (p @ ''.bias.bin'')"
  then show s: "ConvBiasLayer_ToFile cl p fs =
        Return (fs\<lparr>files := (files fs)(p @ ''.bin'' \<mapsto> pconv cl, p @ ''.bias.bin'' \<mapsto> pbias cl)\<rparr>)"
    by (simp add: ConvBiasLayer_ToFile_def Let_def fwrite_def conv_sized_def)
  from a show "ConvBiasLayer_FromFile cl' p
        (fs\<lparr>files := (files fs)(p @ ''.bin'' \<mapsto> pconv cl, p @ ''.bias.bin'' \<mapsto> pbias cl)\<rparr>) =
        Some (True, cl'\<lparr>pconv := pconv cl, pbias := pbias cl\<rparr>)"
    by (intro conv_roundtrip [OF s]) simp_all
next
  assume a: "fc_sized fl \<and> fc_sized fl' \<and> inputs fl' = inputs fl \<and> outputs fl' = outputs fl \<and>
    writable fs (p @ ''.bin'') \<and> writable fs (p @ ''.bias.bin'')"
  then show s: "FullyConnectedLayer_ToFile fl p fs =
        Return (fs\<lparr>files := (files fs)(p @ ''.bin'' \<mapsto> pneurons fl, p @ ''.bias.bin'' \<mapsto> fc_pbias fl)\<rparr>)"
    by (simp add: FullyConnectedLayer_ToFile_def Let_def fwrite_def fc_sized_def)
  from a show "FullyConnectedLayer_FromFile fl' p
        (fs\<lparr>files := (files fs)(p @ ''.bin'' \<mapsto> pneurons fl, p @ ''.bias.bin'' \<mapsto> fc_pbias fl)\<rparr>) =
        Some (True, fl'\<lparr>pneurons := pneurons fl, fc_pbias := fc_pbias fl\<rparr>)"
    by (intro fc_roundtrip [OF s]) simp_all
qed

theorem weight_file_roundtrip_witness:
  "ConvBiasLayer_FromFile
     (\<lparr>in_channels = 1, out_channels = 2, kernel_size = 1, in_width = 3, in_height = 3,
       out_width = 3, out_height = 3, pconv = [0, 0], pbias = [0, 0]\<rparr> :: 32 word ConvBiasLayer)
     ''conv1''
     (\<lparr>files = [''conv1.bin'' \<mapsto> [5, 6], ''conv1.bias.bin'' \<mapsto> [7, 8]], writable = (\<lambda>_. True)\<rparr>)
   = Some (True, \<lparr>in_channels = 1, out_channels = 2, kernel_size = 1, in_width = 3, in_height = 3,
       out_width = 3, out_height = 3, pconv = [5, 6], pbias = [7, 8]\<rparr>) \<and>
   FullyConnectedLayer_FromFile
     (\<lparr>inputs = 2, outputs = 1, pneurons = [0, 0], fc_pbias = [0]\<rparr> :: 32 word FullyConnectedLayer)
     ''ip1''
     (\<lparr>files = [''ip1.bin'' \<mapsto> [5, 6], ''ip1.bias.bin'' \<mapsto> [7]], writable = (\<lambda>_. True)\<rparr>)
   = Some (True, \<lparr>inputs = 2, outputs = 1, pneurons = [5, 6], fc_pbias = [7]\<rparr>)"
proof -
  let ?cl = "\<lparr>in_channels = 1, out_channels = 2, kernel_size = 1, in_width = 3, in_height = 3,
       out_width = 3, out_height = 3, pconv = [5, 6], pbias = [7, 8]\<rparr> :: 32 word ConvBiasLayer"
  let ?cl' = "\<lparr>in_channels = 1, out_channels = 2, kernel_size = 1, in_width = 3, in_height = 3,
       out_width = 3, out_height = 3, pconv = [0, 0], pbias = [0, 0]\<rparr> :: 32 word ConvBiasLayer"
  let ?fl = "\<lparr>inputs = 2, outputs = 1, pneurons = [5, 6], fc_pbias = [7]\<rparr> :: 32 word FullyConnectedLayer"
  let ?fl' = "\<lparr>inputs = 2, outputs = 1, pneurons = [0, 0], fc_pbias = [0]\<rparr> :: 32 word FullyConnectedLayer"
  let ?fs = "\<lparr>files = Map.empty, writable = (\<lambda>_. True)\<rparr> :: 32 word filesystem"
  have hc: "conv_sized ?cl \<and> conv_sized ?cl' \<and> in_channels ?cl' = in_channels ?cl \<and>
    out_channels ?cl' = out_channels ?cl \<and> kernel_size ?cl' = kernel_size ?cl \<and>
    writable ?fs (''conv1'' @ ''.bin'') \<and> writable ?fs (''conv1'' @ ''.bias.bin'')"
    by (simp add: conv_sized_def size_t_of_int_numeral)
  have hf: "fc_sized ?fl \<and> fc_sized ?fl' \<and> inputs ?fl' = inputs ?fl \<and> outputs ?fl' = outputs ?fl \<and>
    writable ?fs (''ip1'' @ ''.bin'') \<and> writable ?fs (''ip1'' @ ''.bias.bin'')"
    by (simp add: fc_sized_def size_t_of_int_numeral)
  note c = weight_file_roundtrip [of ?cl ?cl' ?fs "''conv1''" ?fl ?fl', THEN conjunct1, rule_format, OF hc, THEN conjunct2]
  note f = weight_file_roundtrip [of ?cl ?cl' ?fs "''ip1''" ?fl ?fl', THEN conjunct2, rule_format, OF hf, THEN conjunct2]
  from c have "ConvBiasLayer_FromFile ?cl' ''conv1''
     (\<lparr>files = [''conv1.bin'' \<mapsto> [5, 6], ''conv1.bias.bin'' \<mapsto> [7, 8]], writable = (\<lambda>_. True)\<rparr>)
     = Some (True, ?cl)" by simp
  moreover from f have "FullyConnectedLayer_FromFile ?fl' ''ip1''
     (\<lparr>files = [''ip1.bin'' \<mapsto> [5, 6], ''ip1.bias.bin'' \<mapsto> [7]], writable = (\<lambda>_. True)\<rparr>)
     = Some (True, ?fl)" by simp
  ultimately show ?thesis by (rule conjI)
qed




section \<open>The weight updates\<close>

lemma length_axpy: "length (axpy a x y) = min (length x) (length y)"
  by (simp add: axpy_def)

lemma nth_axpy:
  "i < length x \<Longrightarrow> i < length y \<Longrightarrow> axpy a x y ! i = a * x ! i + y ! i"
  by (simp add: axpy_def)

lemma cublasSaxpy_axpy:
  "length y = n \<Longrightarrow> n \<le> length x \<Longrightarrow> cublasSaxpy n a x y = Some (axpy a (take n x) y)"
  by (simp add: cublasSaxpy_def axpy_def)

lemma cudaMemset_all: "length y = n \<Longrightarrow> cudaMemset y n = Some (replicate n 0)"
  by (simp add: cudaMemset_def)

lemma UpdateLocalWeights_returns:
  assumes sz: "device_sized ctx c1 c2 d" and le: "length (pbias c2) \<le> length (pconv c2)"
  shows "\<exists>d'. UpdateLocalWeights ctx lr rho c1 c2 d = Some d'"
  using sz le unfolding device_sized_def UpdateLocalWeights_def Let_def
  by (simp add: cublasSaxpy_axpy cudaMemset_all length_axpy)

lemma UpdateLocalWeights_closed:
  assumes sz: "device_sized ctx c1 c2 d" and le: "length (pbias c2) \<le> length (pconv c2)"
    and run: "UpdateLocalWeights ctx lr rho c1 c2 d = Some d'"
  shows
    "d_gdpconv1 d' = axpy (rho * lr) (d_gpconv1 d) (axpy (rho * lr) (d_pconv1 d) (replicate (length (pconv c1)) 0))"
    "d_pconv1 d' = axpy (- lr) (d_gpconv1 d) (axpy (- 1) (d_gdpconv1 d') (d_pconv1 d))"
    "d_gconv1 d' = d_gconv1 d"
    "d_gpconv1 d' = d_gpconv1 d"
    "d_gdpconv1bias d' = axpy (rho * lr) (d_gpconv1bias d) (axpy (rho * lr) (d_pconv1bias d) (replicate (length (pbias c1)) 0))"
    "d_pconv1bias d' = axpy (- lr) (d_gconv1bias d) (axpy (- 1) (d_gdpconv1bias d') (d_pconv1bias d))"
    "d_gconv1bias d' = d_gconv1bias d"
    "d_gpconv1bias d' = d_gpconv1bias d"
    "d_gdpconv2 d' = axpy (rho * lr) (d_gpconv2 d) (axpy (rho * lr) (d_pconv2 d) (replicate (length (pconv c2)) 0))"
    "d_pconv2 d' = axpy (- lr) (d_gconv2 d) (axpy (- 1) (d_gdpconv2 d') (d_pconv2 d))"
    "d_gconv2 d' = d_gconv2 d"
    "d_gpconv2 d' = d_gpconv2 d"
    "d_gdpconv2bias d' = axpy (rho * lr) (take (length (pbias c2)) (d_gpconv2 d)) (axpy (rho * lr) (d_pconv2bias d) (replicate (length (pbias c2)) 0))"
    "d_pconv2bias d' = axpy (- lr) (d_gconv2bias d) (axpy (- 1) (d_gdpconv2bias d') (d_pconv2bias d))"
    "d_gconv2bias d' = d_gconv2bias d"
    "d_gpconv2bias d' = d_gpconv2bias d"
    "d_gdpfc1 d' = axpy (rho * lr) (d_gpfc1 d) (axpy (rho * lr) (d_pfc1 d) (d_gdpfc1 d))"
    "d_pfc1 d' = axpy (- lr) (replicate (length (pneurons (ref_fc1 ctx))) 0) (axpy (- 1) (d_gdpfc1 d') (d_pfc1 d))"
    "d_gfc1 d' = (replicate (length (pneurons (ref_fc1 ctx))) 0)"
    "d_gpfc1 d' = d_gpfc1 d"
    "d_gdpfc1bias d' = axpy (rho * lr) (d_gpfc1bias d) (axpy (rho * lr) (d_pfc1bias d) (replicate (length (fc_pbias (ref_fc1 ctx))) 0))"
    "d_pfc1bias d' = axpy (- lr) (d_gfc1bias d) (axpy (- 1) (d_gdpfc1bias d') (d_pfc1bias d))"
    "d_gfc1bias d' = d_gfc1bias d"
    "d_gpfc1bias d' = d_gpfc1bias d"
    "d_gdpfc2 d' = axpy (rho * lr) (d_gpfc2 d) (axpy (rho * lr) (d_pfc2 d) (replicate (length (pneurons (ref_fc2 ctx))) 0))"
    "d_pfc2 d' = axpy (- lr) (d_gfc2 d) (axpy (- 1) (d_gdpfc2 d') (d_pfc2 d))"
    "d_gfc2 d' = d_gfc2 d"
    "d_gpfc2 d' = d_gpfc2 d"
    "d_gdpfc2bias d' = axpy (rho * lr) (d_gpfc2bias d) (axpy (rho * lr) (d_pfc2bias d) (replicate (length (fc_pbias (ref_fc2 ctx))) 0))"
    "d_pfc2bias d' = axpy (- lr) (d_gfc2bias d) (axpy (- 1) (d_gdpfc2bias d') (d_pfc2bias d))"
    "d_gfc2bias d' = d_gfc2bias d"
    "d_gpfc2bias d' = d_gpfc2bias d"
  using sz le run unfolding device_sized_def UpdateLocalWeights_def Let_def
  by (auto simp: cublasSaxpy_axpy cudaMemset_all length_axpy)

lemma UpdateGlobalWeights_returns:
  assumes sz: "device_sized ctx c1 c2 d"
  shows "\<exists>d'. UpdateGlobalWeights ctx lr c1 c2 d = Some d'"
  using sz unfolding device_sized_def UpdateGlobalWeights_def Let_def
  by (simp add: cublasSaxpy_axpy length_axpy)

lemma UpdateGlobalWeights_closed:
  assumes sz: "device_sized ctx c1 c2 d"
    and run: "UpdateGlobalWeights ctx lr c1 c2 d = Some d'"
  shows
    "d_gpconv1 d' = axpy lr (d_gdpconv1 d) (d_gpconv1 d)"
    "d_gdpconv1 d' = d_gdpconv1 d"
    "d_pconv1 d' = d_pconv1 d"
    "d_gpconv1bias d' = axpy lr (d_gdpconv1bias d) (d_gpconv1bias d)"
    "d_gdpconv1bias d' = d_gdpconv1bias d"
    "d_pconv1bias d' = d_pconv1bias d"
    "d_gpconv2 d' = axpy lr (d_gdpconv2 d) (d_gpconv2 d)"
    "d_gdpconv2 d' = d_gdpconv2 d"
    "d_pconv2 d' = d_pconv2 d"
    "d_gpconv2bias d' = axpy lr (d_gdpconv2bias d) (d_gpconv2bias d)"
    "d_gdpconv2bias d' = d_gdpconv2bias d"
    "d_pconv2bias d' = d_pconv2bias d"
    "d_gpfc1 d' = axpy lr (d_gdpfc1 d) (d_gpfc1 d)"
    "d_gdpfc1 d' = d_gdpfc1 d"
    "d_pfc1 d' = d_pfc1 d"
    "d_gpfc1bias d' = axpy lr (d_gdpfc1bias d) (d_gpfc1bias d)"
    "d_gdpfc1bias d' = d_gdpfc1bias d"
    "d_pfc1bias d' = d_pfc1bias d"
    "d_gpfc2 d' = axpy lr (d_gdpfc2 d) (d_gpfc2 d)"
    "d_gdpfc2 d' = d_gdpfc2 d"
    "d_pfc2 d' = d_pfc2 d"
    "d_gpfc2bias d' = axpy lr (d_gdpfc2bias d) (d_gpfc2bias d)"
    "d_gdpfc2bias d' = d_gdpfc2bias d"
    "d_pfc2bias d' = d_pfc2bias d"
  using sz run unfolding device_sized_def UpdateGlobalWeights_def Let_def
  by (auto simp: cublasSaxpy_axpy length_axpy)

lemma local_update_step:
  assumes sz: "device_sized ctx c1 c2 d" and le: "length (pbias c2) \<le> length (pconv c2)"
    and run: "UpdateLocalWeights ctx lr rho c1 c2 d = Some d'"
  shows
   "(\<forall>i < length (pbias c1). d_pconv1bias d' ! i = d_pconv1bias d ! i - d_gdpconv1bias d' ! i - lr * d_gconv1bias d ! i) \<and>
    (\<forall>i < length (pconv c2). d_pconv2 d' ! i = d_pconv2 d ! i - d_gdpconv2 d' ! i - lr * d_gconv2 d ! i) \<and>
    (\<forall>i < length (fc_pbias (ref_fc1 ctx)). d_pfc1bias d' ! i = d_pfc1bias d ! i - d_gdpfc1bias d' ! i - lr * d_gfc1bias d ! i) \<and>
    (\<forall>i < length (pneurons (ref_fc2 ctx)). d_pfc2 d' ! i = d_pfc2 d ! i - d_gdpfc2 d' ! i - lr * d_gfc2 d ! i) \<and>
    (\<forall>i < length (fc_pbias (ref_fc2 ctx)). d_pfc2bias d' ! i = d_pfc2bias d ! i - d_gdpfc2bias d' ! i - lr * d_gfc2bias d ! i)"
proof -
  note C = UpdateLocalWeights_closed [OF sz le run]
  have a1: "(\<forall>i < length (pbias c1). d_pconv1bias d' ! i = d_pconv1bias d ! i - d_gdpconv1bias d' ! i - lr * d_gconv1bias d ! i)"
    using sz unfolding device_sized_def C(6) C(5) by (simp add: length_axpy nth_axpy algebra_simps)
  have a2: "(\<forall>i < length (pconv c2). d_pconv2 d' ! i = d_pconv2 d ! i - d_gdpconv2 d' ! i - lr * d_gconv2 d ! i)"
    using sz unfolding device_sized_def C(10) C(9) by (simp add: length_axpy nth_axpy algebra_simps)
  have a5: "(\<forall>i < length (fc_pbias (ref_fc1 ctx)). d_pfc1bias d' ! i = d_pfc1bias d ! i - d_gdpfc1bias d' ! i - lr * d_gfc1bias d ! i)"
    using sz unfolding device_sized_def C(22) C(21) by (simp add: length_axpy nth_axpy algebra_simps)
  have a6: "(\<forall>i < length (pneurons (ref_fc2 ctx)). d_pfc2 d' ! i = d_pfc2 d ! i - d_gdpfc2 d' ! i - lr * d_gfc2 d ! i)"
    using sz unfolding device_sized_def C(26) C(25) by (simp add: length_axpy nth_axpy algebra_simps)
  have a7: "(\<forall>i < length (fc_pbias (ref_fc2 ctx)). d_pfc2bias d' ! i = d_pfc2bias d ! i - d_gdpfc2bias d' ! i - lr * d_gfc2bias d ! i)"
    using sz unfolding device_sized_def C(30) C(29) by (simp add: length_axpy nth_axpy algebra_simps)
  from a1 a2 a5 a6 a7 show ?thesis by (intro conjI)
qed

lemma local_update_residual_inputs:
  assumes sz: "device_sized ctx c1 c2 d" and le: "length (pbias c2) \<le> length (pconv c2)"
    and run: "UpdateLocalWeights ctx lr rho c1 c2 d = Some d'"
    and sze: "device_sized ctx c1 c2 e"
    and rune: "UpdateLocalWeights ctx lr rho c1 c2 e = Some e'"
  shows
   "(d_pconv1bias e = d_pconv1bias d \<and> d_gpconv1bias e = d_gpconv1bias d \<longrightarrow> d_gdpconv1bias e' = d_gdpconv1bias d') \<and>
    (d_pconv2 e = d_pconv2 d \<and> d_gpconv2 e = d_gpconv2 d \<longrightarrow> d_gdpconv2 e' = d_gdpconv2 d') \<and>
    (d_pfc1bias e = d_pfc1bias d \<and> d_gpfc1bias e = d_gpfc1bias d \<longrightarrow> d_gdpfc1bias e' = d_gdpfc1bias d') \<and>
    (d_pfc2 e = d_pfc2 d \<and> d_gpfc2 e = d_gpfc2 d \<longrightarrow> d_gdpfc2 e' = d_gdpfc2 d') \<and>
    (d_pfc2bias e = d_pfc2bias d \<and> d_gpfc2bias e = d_gpfc2bias d \<longrightarrow> d_gdpfc2bias e' = d_gdpfc2bias d')"
proof -
  note C = UpdateLocalWeights_closed [OF sz le run]
  note E = UpdateLocalWeights_closed [OF sze le rune]
  have b1: "(d_pconv1bias e = d_pconv1bias d \<and> d_gpconv1bias e = d_gpconv1bias d \<longrightarrow> d_gdpconv1bias e' = d_gdpconv1bias d')"
    unfolding C(5) E(5) by simp
  have b2: "(d_pconv2 e = d_pconv2 d \<and> d_gpconv2 e = d_gpconv2 d \<longrightarrow> d_gdpconv2 e' = d_gdpconv2 d')"
    unfolding C(9) E(9) by simp
  have b5: "(d_pfc1bias e = d_pfc1bias d \<and> d_gpfc1bias e = d_gpfc1bias d \<longrightarrow> d_gdpfc1bias e' = d_gdpfc1bias d')"
    unfolding C(21) E(21) by simp
  have b6: "(d_pfc2 e = d_pfc2 d \<and> d_gpfc2 e = d_gpfc2 d \<longrightarrow> d_gdpfc2 e' = d_gdpfc2 d')"
    unfolding C(25) E(25) by simp
  have b7: "(d_pfc2bias e = d_pfc2bias d \<and> d_gpfc2bias e = d_gpfc2bias d \<longrightarrow> d_gdpfc2bias e' = d_gdpfc2bias d')"
    unfolding C(29) E(29) by simp
  from b1 b2 b5 b6 b7 show ?thesis by (intro conjI)
qed

lemma local_update_residual_form:
  assumes sz: "device_sized ctx c1 c2 d" and le: "length (pbias c2) \<le> length (pconv c2)"
    and run: "UpdateLocalWeights ctx lr rho c1 c2 d = Some d'"
  shows
   "(\<forall>i < length (pbias c1). d_gdpconv1bias d' ! i = rho * lr * d_pconv1bias d ! i + 1 * (rho * lr * d_gpconv1bias d ! i)) \<and>
    (\<forall>i < length (pconv c2). d_gdpconv2 d' ! i = rho * lr * d_pconv2 d ! i + 1 * (rho * lr * d_gpconv2 d ! i)) \<and>
    (\<forall>i < length (fc_pbias (ref_fc1 ctx)). d_gdpfc1bias d' ! i = rho * lr * d_pfc1bias d ! i + 1 * (rho * lr * d_gpfc1bias d ! i)) \<and>
    (\<forall>i < length (pneurons (ref_fc2 ctx)). d_gdpfc2 d' ! i = rho * lr * d_pfc2 d ! i + 1 * (rho * lr * d_gpfc2 d ! i)) \<and>
    (\<forall>i < length (fc_pbias (ref_fc2 ctx)). d_gdpfc2bias d' ! i = rho * lr * d_pfc2bias d ! i + 1 * (rho * lr * d_gpfc2bias d ! i))"
proof -
  note C = UpdateLocalWeights_closed [OF sz le run]
  have r1: "(\<forall>i < length (pbias c1). d_gdpconv1bias d' ! i = rho * lr * d_pconv1bias d ! i + 1 * (rho * lr * d_gpconv1bias d ! i))"
    using sz unfolding device_sized_def C(5) by (simp add: length_axpy nth_axpy)
  have r2: "(\<forall>i < length (pconv c2). d_gdpconv2 d' ! i = rho * lr * d_pconv2 d ! i + 1 * (rho * lr * d_gpconv2 d ! i))"
    using sz unfolding device_sized_def C(9) by (simp add: length_axpy nth_axpy)
  have r5: "(\<forall>i < length (fc_pbias (ref_fc1 ctx)). d_gdpfc1bias d' ! i = rho * lr * d_pfc1bias d ! i + 1 * (rho * lr * d_gpfc1bias d ! i))"
    using sz unfolding device_sized_def C(21) by (simp add: length_axpy nth_axpy)
  have r6: "(\<forall>i < length (pneurons (ref_fc2 ctx)). d_gdpfc2 d' ! i = rho * lr * d_pfc2 d ! i + 1 * (rho * lr * d_gpfc2 d ! i))"
    using sz unfolding device_sized_def C(25) by (simp add: length_axpy nth_axpy)
  have r7: "(\<forall>i < length (fc_pbias (ref_fc2 ctx)). d_gdpfc2bias d' ! i = rho * lr * d_pfc2bias d ! i + 1 * (rho * lr * d_gpfc2bias d ! i))"
    using sz unfolding device_sized_def C(29) by (simp add: length_axpy nth_axpy)
  from r1 r2 r5 r6 r7 show ?thesis by (intro conjI)
qed

text \<open>
  Claim C3, as amended. On buffers of the allocated sizes the local update returns, and
  for the conv1 bias, the conv2 weights, the fc1 bias, the fc2 weights and the fc2 bias:
  the new dual residual \<open>d\<close> is the local tensor scaled by \<open>\<rho> * learning_rate\<close>
  combined with the global tensor scaled by \<open>\<rho> * learning_rate\<close>, elementwise, the
  global term entering with one sign \<open>s\<close> for all of them; the new local tensor is
  \<open>local - d - learning_rate * g\<close>; and \<open>d\<close> is the same on any other device that holds
  the same local and global values of the tensor, whatever its gradients and other
  buffers are: the gradient does not enter the dual residual. Which sign \<open>s\<close> is, is not
  part of the statement: the code adds the global term (\<open>minus_rho_alpha = rho_alpha\<close>)
  where its comments speak of \<open>rho(L-G)\<close>.
\<close>

theorem local_update_five_tensors:
  "device_sized ctx c1 c2 d \<and> length (pbias c2) \<le> length (pconv c2) \<longrightarrow>
     (\<exists>d' s. UpdateLocalWeights ctx lr rho c1 c2 d = Some d' \<and> (s = 1 \<or> s = - 1) \<and>
       (\<forall>i < length (pbias c1). d_gdpconv1bias d' ! i = rho * lr * d_pconv1bias d ! i + s * (rho * lr * d_gpconv1bias d ! i)) \<and>
       (\<forall>i < length (pconv c2). d_gdpconv2 d' ! i = rho * lr * d_pconv2 d ! i + s * (rho * lr * d_gpconv2 d ! i)) \<and>
       (\<forall>i < length (fc_pbias (ref_fc1 ctx)). d_gdpfc1bias d' ! i = rho * lr * d_pfc1bias d ! i + s * (rho * lr * d_gpfc1bias d ! i)) \<and>
       (\<forall>i < length (pneurons (ref_fc2 ctx)). d_gdpfc2 d' ! i = rho * lr * d_pfc2 d ! i + s * (rho * lr * d_gpfc2 d ! i)) \<and>
       (\<forall>i < length (fc_pbias (ref_fc2 ctx)). d_gdpfc2bias d' ! i = rho * lr * d_pfc2bias d ! i + s * (rho * lr * d_gpfc2bias d ! i)) \<and>
       (\<forall>i < length (pbias c1). d_pconv1bias d' ! i = d_pconv1bias d ! i - d_gdpconv1bias d' ! i - lr * d_gconv1bias d ! i) \<and>
       (\<forall>i < length (pconv c2). d_pconv2 d' ! i = d_pconv2 d ! i - d_gdpconv2 d' ! i - lr * d_gconv2 d ! i) \<and>
       (\<forall>i < length (fc_pbias (ref_fc1 ctx)). d_pfc1bias d' ! i = d_pfc1bias d ! i - d_gdpfc1bias d' ! i - lr * d_gfc1bias d ! i) \<and>
       (\<forall>i < length (pneurons (ref_fc2 ctx)). d_pfc2 d' ! i = d_pfc2 d ! i - d_gdpfc2 d' ! i - lr * d_gfc2 d ! i) \<and>
       (\<forall>i < length (fc_pbias (ref_fc2 ctx)). d_pfc2bias d' ! i = d_pfc2bias d ! i - d_gdpfc2bias d' ! i - lr * d_gfc2bias d ! i) \<and>
       (\<forall>e e'. device_sized ctx c1 c2 e \<and> UpdateLocalWeights ctx lr rho c1 c2 e = Some e' \<longrightarrow>
          (d_pconv1bias e = d_pconv1bias d \<and> d_gpconv1bias e = d_gpconv1bias d \<longrightarrow> d_gdpconv1bias e' = d_gdpconv1bias d') \<and>
          (d_pconv2 e = d_pconv2 d \<and> d_gpconv2 e = d_gpconv2 d \<longrightarrow> d_gdpconv2 e' = d_gdpconv2 d') \<and>
          (d_pfc1bias e = d_pfc1bias d \<and> d_gpfc1bias e = d_gpfc1bias d \<longrightarrow> d_gdpfc1bias e' = d_gdpfc1bias d') \<and>
          (d_pfc2 e = d_pfc2 d \<and> d_gpfc2 e = d_gpfc2 d \<longrightarrow> d_gdpfc2 e' = d_gdpfc2 d') \<and>
          (d_pfc2bias e = d_pfc2bias d \<and> d_gpfc2bias e = d_gpfc2bias d \<longrightarrow> d_gdpfc2bias e' = d_gdpfc2bias d')))"
proof
  assume a: "device_sized ctx c1 c2 d \<and> length (pbias c2) \<le> length (pconv c2)"
  then have sz: "device_sized ctx c1 c2 d" and le: "length (pbias c2) \<le> length (pconv c2)"
    by simp_all
  from UpdateLocalWeights_returns [OF sz le]
  obtain d' where run: "UpdateLocalWeights ctx lr rho c1 c2 d = Some d'" by blast
  note R = local_update_residual_form [OF sz le run]
  note A = local_update_step [OF sz le run]
  have B: "\<forall>e e'. device_sized ctx c1 c2 e \<and> UpdateLocalWeights ctx lr rho c1 c2 e = Some e' \<longrightarrow>
          (d_pconv1bias e = d_pconv1bias d \<and> d_gpconv1bias e = d_gpconv1bias d \<longrightarrow> d_gdpconv1bias e' = d_gdpconv1bias d') \<and>
          (d_pconv2 e = d_pconv2 d \<and> d_gpconv2 e = d_gpconv2 d \<longrightarrow> d_gdpconv2 e' = d_gdpconv2 d') \<and>
          (d_pfc1bias e = d_pfc1bias d \<and> d_gpfc1bias e = d_gpfc1bias d \<longrightarrow> d_gdpfc1bias e' = d_gdpfc1bias d') \<and>
          (d_pfc2 e = d_pfc2 d \<and> d_gpfc2 e = d_gpfc2 d \<longrightarrow> d_gdpfc2 e' = d_gdpfc2 d') \<and>
          (d_pfc2bias e = d_pfc2bias d \<and> d_gpfc2bias e = d_gpfc2bias d \<longrightarrow> d_gdpfc2bias e' = d_gdpfc2bias d')"
    using local_update_residual_inputs [OF sz le run] by blast
  have "UpdateLocalWeights ctx lr rho c1 c2 d = Some d' \<and> ((1::real) = 1 \<or> (1::real) = - 1) \<and>
       (\<forall>i < length (pbias c1). d_gdpconv1bias d' ! i = rho * lr * d_pconv1bias d ! i + 1 * (rho * lr * d_gpconv1bias d ! i)) \<and>
       (\<forall>i < length (pconv c2). d_gdpconv2 d' ! i = rho * lr * d_pconv2 d ! i + 1 * (rho * lr * d_gpconv2 d ! i)) \<and>
       (\<forall>i < length (fc_pbias (ref_fc1 ctx)). d_gdpfc1bias d' ! i = rho * lr * d_pfc1bias d ! i + 1 * (rho * lr * d_gpfc1bias d ! i)) \<and>
       (\<forall>i < length (pneurons (ref_fc2 ctx)). d_gdpfc2 d' ! i = rho * lr * d_pfc2 d ! i + 1 * (rho * lr * d_gpfc2 d ! i)) \<and>
       (\<forall>i < length (fc_pbias (ref_fc2 ctx)). d_gdpfc2bias d' ! i = rho * lr * d_pfc2bias d ! i + 1 * (rho * lr * d_gpfc2bias d ! i)) \<and>
       (\<forall>i < length (pbias c1). d_pconv1bias d' ! i = d_pconv1bias d ! i - d_gdpconv1bias d' ! i - lr * d_gconv1bias d ! i) \<and>
       (\<forall>i < length (pconv c2). d_pconv2 d' ! i = d_pconv2 d ! i - d_gdpconv2 d' ! i - lr * d_gconv2 d ! i) \<and>
       (\<forall>i < length (fc_pbias (ref_fc1 ctx)). d_pfc1bias d' ! i = d_pfc1bias d ! i - d_gdpfc1bias d' ! i - lr * d_gfc1bias d ! i) \<and>
       (\<forall>i < length (pneurons (ref_fc2 ctx)). d_pfc2 d' ! i = d_pfc2 d ! i - d_gdpfc2 d' ! i - lr * d_gfc2 d ! i) \<and>
       (\<forall>i < length (fc_pbias (ref_fc2 ctx)). d_pfc2bias d' ! i = d_pfc2bias d ! i - d_gdpfc2bias d' ! i - lr * d_gfc2bias d ! i) \<and>
       (\<forall>e e'. device_sized ctx c1 c2 e \<and> UpdateLocalWeights ctx lr rho c1 c2 e = Some e' \<longrightarrow>
          (d_pconv1bias e = d_pconv1bias d \<and> d_gpconv1bias e = d_gpconv1bias d \<longrightarrow> d_gdpconv1bias e' = d_gdpconv1bias d') \<and>
          (d_pconv2 e = d_pconv2 d \<and> d_gpconv2 e = d_gpconv2 d \<longrightarrow> d_gdpconv2 e' = d_gdpconv2 d') \<and>
          (d_pfc1bias e = d_pfc1bias d \<and> d_gpfc1bias e = d_gpfc1bias d \<longrightarrow> d_gdpfc1bias e' = d_gdpfc1bias d') \<and>
          (d_pfc2 e = d_pfc2 d \<and> d_gpfc2 e = d_gpfc2 d \<longrightarrow> d_gdpfc2 e' = d_gdpfc2 d') \<and>
          (d_pfc2bias e = d_pfc2bias d \<and> d_gpfc2bias e = d_gpfc2bias d \<longrightarrow> d_gdpfc2bias e' = d_gdpfc2bias d'))"
    using run R A B by (intro conjI) simp_all
  then show "\<exists>d' s. UpdateLocalWeights ctx lr rho c1 c2 d = Some d' \<and> (s = 1 \<or> s = - 1) \<and>
       (\<forall>i < length (pbias c1). d_gdpconv1bias d' ! i = rho * lr * d_pconv1bias d ! i + s * (rho * lr * d_gpconv1bias d ! i)) \<and>
       (\<forall>i < length (pconv c2). d_gdpconv2 d' ! i = rho * lr * d_pconv2 d ! i + s * (rho * lr * d_gpconv2 d ! i)) \<and>
       (\<forall>i < length (fc_pbias (ref_fc1 ctx)). d_gdpfc1bias d' ! i = rho * lr * d_pfc1bias d ! i + s * (rho * lr * d_gpfc1bias d ! i)) \<and>
       (\<forall>i < length (pneurons (ref_fc2 ctx)). d_gdpfc2 d' ! i = rho * lr * d_pfc2 d ! i + s * (rho * lr * d_gpfc2 d ! i)) \<and>
       (\<forall>i < length (fc_pbias (ref_fc2 ctx)). d_gdpfc2bias d' ! i = rho * lr * d_pfc2bias d ! i + s * (rho * lr * d_gpfc2bias d ! i)) \<and>
       (\<forall>i < length (pbias c1). d_pconv1bias d' ! i = d_pconv1bias d ! i - d_gdpconv1bias d' ! i - lr * d_gconv1bias d ! i) \<and>
       (\<forall>i < length (pconv c2). d_pconv2 d' ! i = d_pconv2 d ! i - d_gdpconv2 d' ! i - lr * d_gconv2 d ! i) \<and>
       (\<forall>i < length (fc_pbias (ref_fc1 ctx)). d_pfc1bias d' ! i = d_pfc1bias d ! i - d_gdpfc1bias d' ! i - lr * d_gfc1bias d ! i) \<and>
       (\<forall>i < length (pneurons (ref_fc2 ctx)). d_pfc2 d' ! i = d_pfc2 d ! i - d_gdpfc2 d' ! i - lr * d_gfc2 d ! i) \<and>
       (\<forall>i < length (fc_pbias (ref_fc2 ctx)). d_pfc2bias d' ! i = d_pfc2bias d ! i - d_gdpfc2bias d' ! i - lr * d_gfc2bias d ! i) \<and>
       (\<forall>e e'. device_sized ctx c1 c2 e \<and> UpdateLocalWeights ctx lr rho c1 c2 e = Some e' \<longrightarrow>
          (d_pconv1bias e = d_pconv1bias d \<and> d_gpconv1bias e = d_gpconv1bias d \<longrightarrow> d_gdpconv1bias e' = d_gdpconv1bias d') \<and>
          (d_pconv2 e = d_pconv2 d \<and> d_gpconv2 e = d_gpconv2 d \<longrightarrow> d_gdpconv2 e' = d_gdpconv2 d') \<and>
          (d_pfc1bias e = d_pfc1bias d \<and> d_gpfc1bias e = d_gpfc1bias d \<longrightarrow> d_gdpfc1bias e' = d_gdpfc1bias d') \<and>
          (d_pfc2 e = d_pfc2 d \<and> d_gpfc2 e = d_gpfc2 d \<longrightarrow> d_gdpfc2 e' = d_gdpfc2 d') \<and>
          (d_pfc2bias e = d_pfc2bias d \<and> d_gpfc2bias e = d_gpfc2bias d \<longrightarrow> d_gdpfc2bias e' = d_gdpfc2bias d'))"
    by (intro exI [of _ d'] exI [of _ "1::real"])
qed

lemma cublasSaxpy_single: "cublasSaxpy (Suc 0) a [x] [y] = Some [a * x + y]"
  by (simp add: cublasSaxpy_def)

lemma cudaMemset_single: "cudaMemset [y] (Suc 0) = Some [0]"
  by (simp add: cudaMemset_def)

lemmas unit_defs = unit_ctx_def unit_conv_def unit_fc_def unit_device_def

lemma unit_device_sized: "device_sized unit_ctx unit_conv unit_conv unit_device"
  by (simp add: device_sized_def unit_defs)

lemma unit_device_run_rho0:
  "UpdateLocalWeights unit_ctx 1 0 unit_conv unit_conv unit_device =
     Some (unit_device\<lparr>
       d_gdpconv1 := [0], d_pconv1 := [- 1],
       d_gdpconv1bias := [0], d_pconv1bias := [- 2],
       d_gdpconv2 := [0], d_pconv2 := [- 2],
       d_gdpconv2bias := [0], d_pconv2bias := [- 2],
       d_gfc1 := [0], d_gdpfc1 := [7], d_pfc1 := [- 6],
       d_gdpfc1bias := [0], d_pfc1bias := [- 2],
       d_gdpfc2 := [0], d_pfc2 := [- 2],
       d_gdpfc2bias := [0], d_pfc2bias := [- 2]\<rparr>)"
  by (simp add: UpdateLocalWeights_def unit_defs cublasSaxpy_single cudaMemset_single)

text \<open>
  Claim C2 fails on the code. With \<open>\<rho> = 0\<close> and learning rate 1, on the one-element
  device with local weight 1, global weight 2, gradient 3 and stale residual 7, plain SGD
  gives \<open>1 - 1 * 3 = - 2\<close> for every tensor. The conv1 weights become \<open>- 1\<close>: the last
  \<open>cublasSaxpy\<close> of their block adds \<open>alpha * gpconv1\<close>, the global weights, where the
  other blocks add the gradient. The fc1 weights become \<open>- 6\<close>: the \<open>cudaMemset\<close> of
  their block clears the gradient \<open>gfc1\<close> where the other blocks clear the residual, so
  the stale residual is subtracted and the gradient is lost.
\<close>

theorem rho_zero_not_plain_sgd:
  "map_option d_pconv1 (UpdateLocalWeights unit_ctx 1 0 unit_conv unit_conv unit_device) = Some [- 1] \<and>
   spec_sgd 1 (d_pconv1 unit_device) (d_gconv1 unit_device) = [- 2] \<and>
   map_option d_pfc1 (UpdateLocalWeights unit_ctx 1 0 unit_conv unit_conv unit_device) = Some [- 6] \<and>
   spec_sgd 1 (d_pfc1 unit_device) (d_gfc1 unit_device) = [- 2]"
  by (simp add: unit_device_run_rho0) (simp add: spec_sgd_def unit_device_def)

lemma unit_device_residuals:
  "map_option d_gdpconv2 (UpdateLocalWeights unit_ctx 1 10 unit_conv unit_conv unit_device) = Some [30]"
  "map_option d_gdpconv2
     (UpdateLocalWeights unit_ctx 1 10 unit_conv unit_conv (unit_device\<lparr>d_gconv2 := [4]\<rparr>)) = Some [30]"
  "map_option d_pconv2 (UpdateLocalWeights unit_ctx 1 10 unit_conv unit_conv unit_device) = Some [- 32]"
  "map_option d_gdpconv2bias (UpdateLocalWeights unit_ctx 1 10 unit_conv unit_conv unit_device) = Some [30]"
  "map_option d_gdpconv2bias
     (UpdateLocalWeights unit_ctx 1 10 unit_conv unit_conv (unit_device\<lparr>d_gpconv2 := [5]\<rparr>)) = Some [60]"
  "map_option d_gdpconv2bias
     (UpdateLocalWeights unit_ctx 1 10 unit_conv unit_conv (unit_device\<lparr>d_gpconv2bias := [5]\<rparr>)) = Some [30]"
  by (simp_all add: UpdateLocalWeights_def unit_defs cublasSaxpy_single cudaMemset_single)

text \<open>
  Claim C5 fails on the code. The dual residual of the conv2 bias is \<open>30\<close> on the
  one-element device (\<open>\<rho> = 10\<close>, learning rate 1); it becomes \<open>60\<close> when only the global
  conv2 weights change from 2 to 5, and stays \<open>30\<close> when the global conv2 bias changes
  instead: the second \<open>cublasSaxpy\<close> of the block reads \<open>gpconv2\<close>, the conv2 weights,
  where the other bias blocks read their own global bias.
\<close>

theorem conv2_bias_residual_reads_conv2_weights:
  "map_option d_gdpconv2bias
     (UpdateLocalWeights unit_ctx 1 10 unit_conv unit_conv unit_device) = Some [30] \<and>
   map_option d_gdpconv2bias
     (UpdateLocalWeights unit_ctx 1 10 unit_conv unit_conv (unit_device\<lparr>d_gpconv2 := [5]\<rparr>)) = Some [60] \<and>
   map_option d_gdpconv2bias
     (UpdateLocalWeights unit_ctx 1 10 unit_conv unit_conv (unit_device\<lparr>d_gpconv2bias := [5]\<rparr>)) = Some [30]"
  by (simp add: unit_device_residuals)

lemma unit_device_residual_rate:
  "map_option d_gdpconv2 (UpdateLocalWeights unit_ctx 2 10 unit_conv unit_conv unit_device) = Some [60]"
  by (simp add: UpdateLocalWeights_def unit_defs cublasSaxpy_single cudaMemset_single)

text \<open>
  Claim C3 as stated fails. With \<open>\<rho> = 10\<close>, learning rate 1, local weight 1, global
  weight 2 and gradient 3, the formula of the claim gives the conv2 weights the dual
  residual \<open>10 * (1 - 2) - 10 * 3 = - 40\<close>; the code computes \<open>30\<close>, and still \<open>30\<close>
  when the gradient is 4: the gradient is no part of the dual residual. With learning
  rate 2 the code computes \<open>60\<close>: the residual is scaled by \<open>\<rho> * learning_rate\<close>, where
  the formula of the claim, which has no learning rate, still gives \<open>- 40\<close>.
\<close>

theorem dual_residual_counterexample:
  "map_option d_gdpconv2 (UpdateLocalWeights unit_ctx 1 10 unit_conv unit_conv unit_device) = Some [30] \<and>
   spec_dual_residual 10 (d_pconv2 unit_device) (d_gpconv2 unit_device) (d_gconv2 unit_device) = [- 40] \<and>
   map_option d_gdpconv2 (UpdateLocalWeights unit_ctx 1 10 unit_conv unit_conv unit_device) \<noteq>
     Some (spec_dual_residual 10 (d_pconv2 unit_device) (d_gpconv2 unit_device) (d_gconv2 unit_device)) \<and>
   map_option d_gdpconv2
     (UpdateLocalWeights unit_ctx 1 10 unit_conv unit_conv (unit_device\<lparr>d_gconv2 := [4]\<rparr>)) = Some [30] \<and>
   map_option d_gdpconv2 (UpdateLocalWeights unit_ctx 2 10 unit_conv unit_conv unit_device) = Some [60]"
  by (simp add: unit_device_residuals unit_device_residual_rate)
     (simp add: spec_dual_residual_def unit_device_def)

text \<open>
  The amended claim at the conv2 weights of the one-element device (\<open>\<rho> = 10\<close>, learning
  rate 1, local weight 1, global weight 2): the dual residual is \<open>10 * 1 + s * (10 * 2)\<close>
  for a sign \<open>s\<close>, the same when the gradient changes from 3 to 4, and the new local
  weight is the old one less the residual less the gradient.
\<close>

theorem local_update_five_tensors_witness:
  "device_sized unit_ctx unit_conv unit_conv unit_device \<and>
   length (pbias unit_conv) \<le> length (pconv unit_conv) \<and>
   (\<exists>s. (s = 1 \<or> s = - 1) \<and>
      map_option d_gdpconv2 (UpdateLocalWeights unit_ctx 1 10 unit_conv unit_conv unit_device) =
        Some [10 * 1 * d_pconv2 unit_device ! 0 + s * (10 * 1 * d_gpconv2 unit_device ! 0)]) \<and>
   map_option d_pconv2 (UpdateLocalWeights unit_ctx 1 10 unit_conv unit_conv unit_device) =
     Some [d_pconv2 unit_device ! 0 - 30 - 1 * d_gconv2 unit_device ! 0] \<and>
   map_option d_gdpconv2
     (UpdateLocalWeights unit_ctx 1 10 unit_conv unit_conv (unit_device\<lparr>d_gconv2 := [4]\<rparr>)) =
   map_option d_gdpconv2 (UpdateLocalWeights unit_ctx 1 10 unit_conv unit_conv unit_device)"
proof -
  let ?e = "unit_device\<lparr>d_gconv2 := [4]\<rparr>"
  have sz: "device_sized unit_ctx unit_conv unit_conv unit_device" by (rule unit_device_sized)
  have le: "length (pbias unit_conv) \<le> length (pconv unit_conv)" by (simp add: unit_conv_def)
  have sze: "device_sized unit_ctx unit_conv unit_conv ?e"
    by (simp add: device_sized_def unit_defs)
  from UpdateLocalWeights_returns [OF sze le]
  obtain e' where rune: "UpdateLocalWeights unit_ctx 1 10 unit_conv unit_conv ?e = Some e'"
    by blast
  from local_update_five_tensors [of unit_ctx unit_conv unit_conv unit_device 1 10] sz le
  obtain d' s where run: "UpdateLocalWeights unit_ctx 1 10 unit_conv unit_conv unit_device = Some d'"
    and sign: "s = 1 \<or> s = - 1"
    and resid: "\<forall>i < length (pconv unit_conv).
        d_gdpconv2 d' ! i = 10 * 1 * d_pconv2 unit_device ! i + s * (10 * 1 * d_gpconv2 unit_device ! i)"
    and step: "\<forall>i < length (pconv unit_conv).
        d_pconv2 d' ! i = d_pconv2 unit_device ! i - d_gdpconv2 d' ! i - 1 * d_gconv2 unit_device ! i"
    and indep: "\<forall>e e'. device_sized unit_ctx unit_conv unit_conv e \<and>
        UpdateLocalWeights unit_ctx 1 10 unit_conv unit_conv e = Some e' \<longrightarrow>
        (d_pconv2 e = d_pconv2 unit_device \<and> d_gpconv2 e = d_gpconv2 unit_device \<longrightarrow>
           d_gdpconv2 e' = d_gdpconv2 d')"
    by blast
  from indep sze rune have eq: "d_gdpconv2 e' = d_gdpconv2 d'" by simp
  from unit_device_residuals(1) run have r: "d_gdpconv2 d' = [30]" by simp
  from resid have "d_gdpconv2 d' ! 0 = 10 * 1 * d_pconv2 unit_device ! 0 + s * (10 * 1 * d_gpconv2 unit_device ! 0)"
    by (simp add: unit_conv_def)
  with r have rs: "d_gdpconv2 d' = [10 * 1 * d_pconv2 unit_device ! 0 + s * (10 * 1 * d_gpconv2 unit_device ! 0)]"
    by simp
  from sign rs run
  have ex: "\<exists>s. (s = 1 \<or> s = - 1) \<and>
      map_option d_gdpconv2 (UpdateLocalWeights unit_ctx 1 10 unit_conv unit_conv unit_device) =
        Some [10 * 1 * d_pconv2 unit_device ! 0 + s * (10 * 1 * d_gpconv2 unit_device ! 0)]"
    by (intro exI [of _ s]) simp
  from unit_device_residuals(3) run have "length (d_pconv2 d') = 1" by auto
  moreover from step r have "d_pconv2 d' ! 0 = d_pconv2 unit_device ! 0 - 30 - 1 * d_gconv2 unit_device ! 0"
    by (simp add: unit_conv_def)
  ultimately have p: "d_pconv2 d' = [d_pconv2 unit_device ! 0 - 30 - 1 * d_gconv2 unit_device ! 0]"
    by (cases "d_pconv2 d'") auto
  have rest: "map_option d_pconv2 (UpdateLocalWeights unit_ctx 1 10 unit_conv unit_conv unit_device) =
     Some [d_pconv2 unit_device ! 0 - 30 - 1 * d_gconv2 unit_device ! 0] \<and>
   map_option d_gdpconv2
     (UpdateLocalWeights unit_ctx 1 10 unit_conv unit_conv (unit_device\<lparr>d_gconv2 := [4]\<rparr>)) =
   map_option d_gdpconv2 (UpdateLocalWeights unit_ctx 1 10 unit_conv unit_conv unit_device)"
    using p eq run rune by simp
  from sz le ex rest show ?thesis by (intro conjI) simp_all
qed

lemma sgd_block:
  assumes "length p = n" "length gp = n" "length g = n"
  shows "axpy (- lr) g (axpy (- 1) (axpy (0 * lr) gp (axpy (0 * lr) p (replicate n 0))) p) =
           spec_sgd lr p g"
  using assms by (intro nth_equalityI) (simp_all add: spec_sgd_def length_axpy nth_axpy)

text \<open>
  The other six tensors do follow plain SGD when \<open>\<rho> = 0\<close>.
\<close>

lemma rho_zero_plain_sgd_six:
  assumes sz: "device_sized ctx c1 c2 d" and le: "length (pbias c2) \<le> length (pconv c2)"
    and run: "UpdateLocalWeights ctx lr 0 c1 c2 d = Some d'"
  shows "d_pconv1bias d' = spec_sgd lr (d_pconv1bias d) (d_gconv1bias d)"
    and "d_pconv2 d' = spec_sgd lr (d_pconv2 d) (d_gconv2 d)"
    and "d_pconv2bias d' = spec_sgd lr (d_pconv2bias d) (d_gconv2bias d)"
    and "d_pfc1bias d' = spec_sgd lr (d_pfc1bias d) (d_gfc1bias d)"
    and "d_pfc2 d' = spec_sgd lr (d_pfc2 d) (d_gfc2 d)"
    and "d_pfc2bias d' = spec_sgd lr (d_pfc2bias d) (d_gfc2bias d)"
proof -
  note C = UpdateLocalWeights_closed [OF sz le run]
  show "d_pconv1bias d' = spec_sgd lr (d_pconv1bias d) (d_gconv1bias d)"
    unfolding C(6) C(5) using sz by (intro sgd_block) (simp_all add: device_sized_def)
  show "d_pconv2 d' = spec_sgd lr (d_pconv2 d) (d_gconv2 d)"
    unfolding C(10) C(9) using sz by (intro sgd_block) (simp_all add: device_sized_def)
  show "d_pconv2bias d' = spec_sgd lr (d_pconv2bias d) (d_gconv2bias d)"
    unfolding C(14) C(13) using sz le by (intro sgd_block) (simp_all add: device_sized_def)
  show "d_pfc1bias d' = spec_sgd lr (d_pfc1bias d) (d_gfc1bias d)"
    unfolding C(22) C(21) using sz by (intro sgd_block) (simp_all add: device_sized_def)
  show "d_pfc2 d' = spec_sgd lr (d_pfc2 d) (d_gfc2 d)"
    unfolding C(26) C(25) using sz by (intro sgd_block) (simp_all add: device_sized_def)
  show "d_pfc2bias d' = spec_sgd lr (d_pfc2bias d) (d_gfc2bias d)"
    unfolding C(30) C(29) using sz by (intro sgd_block) (simp_all add: device_sized_def)
qed

section \<open>The message loops\<close>

lemma for_loop_append:
  "for_loop (xs @ ys) body s =
     (case for_loop xs body s of None \<Rightarrow> None | Some s' \<Rightarrow> for_loop ys body s')"
  by (induction xs arbitrary: s) (auto split: option.splits)

lemma for_loop_skip:
  "(\<And>i t. i \<in> set js \<Longrightarrow> body i t = Some t) \<Longrightarrow> for_loop js body s = Some s"
  by (induction js arbitrary: s) auto

lemma fanout_body_other:
  "num_mBatch \<noteq> 0 \<Longrightarrow> rank \<noteq> 0 \<Longrightarrow> i \<noteq> rank \<Longrightarrow> fanout_body rank num_mBatch i tr = Some tr"
  by (simp add: fanout_body_def)

lemma worker_fanout:
  assumes "num_mBatch \<noteq> 0"
  shows "batch_fanout (Suc r) num_mBatch = Some [MPI_Recv 0 COMM_XDATA, MPI_Recv 0 COMM_XLABEL]"
proof -
  have skip: "for_loop [1..<Suc r] (fanout_body (Suc r) num_mBatch) [] = Some []"
    using assms by (intro for_loop_skip fanout_body_other) auto
  have "[1..<Suc (Suc r)] = [1..<Suc r] @ [Suc r]" by simp
  then show ?thesis
    unfolding batch_fanout_def using skip assms
    by (simp only: for_loop_append) (simp add: fanout_body_def)
qed

text \<open>
  Claim C1 fails on the code. The loop that distributes the mini-batches runs
  \<open>i = 1 .. rank\<close> in every process, so the coordinator (rank 0) never enters it and
  sends nothing, whatever the number of workers; a worker posts its two receives from
  rank 0, for the images and for the labels, which no send matches.
\<close>

theorem coordinator_sends_no_batch:
  "batch_fanout 0 num_mBatch = Some [] \<and>
   batch_fanout (Suc r) 937 = Some [MPI_Recv 0 COMM_XDATA, MPI_Recv 0 COMM_XLABEL]"
  using worker_fanout [of 937 r] by (simp add: batch_fanout_def)

lemma residual_body_other:
  "rank \<noteq> 0 \<Longrightarrow> i \<noteq> rank \<Longrightarrow>
   residual_body ctx lr c1 c2 incoming rank i st = Some st"
  by (simp add: residual_body_def)

lemma worker_residual:
  "residual_collection ctx lr c1 c2 incoming (Suc r) (d, tr) =
     Some (d, tr @ [MPI_Send 0 COMM_GDCONV1, MPI_Send 0 COMM_GDCONV1BIAS,
                    MPI_Send 0 COMM_GDCONV2, MPI_Send 0 COMM_GDCONV2BIAS,
                    MPI_Send 0 COMM_GDFC1NEURON, MPI_Send 0 COMM_GDFC1BIAS,
                    MPI_Send 0 COMM_GDFC2NEURON, MPI_Send 0 COMM_GDFC2BIAS])"
proof -
  have skip: "for_loop [1..<Suc r] (residual_body ctx lr c1 c2 incoming (Suc r)) (d, tr) = Some (d, tr)"
    by (intro for_loop_skip residual_body_other) auto
  have "[1..<Suc (Suc r)] = [1..<Suc r] @ [Suc r]" by simp
  then show ?thesis
    unfolding residual_collection_def using skip
    by (simp only: for_loop_append) (simp add: residual_body_def)
qed

text \<open>
  What the coordinator's branch of the loop body does when it runs: with the eight
  messages of process \<open>i\<close> at the posted sizes, every global tensor becomes
  \<open>global + learning_rate * d\<close>, with \<open>d\<close> the residual received.
\<close>

lemma MPI_Recv_into_all:
  "length msg = n \<Longrightarrow> length buf = n \<Longrightarrow> MPI_Recv_into buf n msg = Some msg"
  by (simp add: MPI_Recv_into_def)

lemma coordinator_body_updates_global:
  assumes sz: "device_sized ctx c1 c2 d" and ms: "messages_sized ctx c1 c2 incoming i"
    and i: "i \<noteq> 0"
  shows "\<exists>d'. residual_body ctx lr c1 c2 incoming 0 i (d, tr) =
            Some (d', tr @
                   [MPI_Recv i COMM_GDCONV1,
                    MPI_Recv i COMM_GDCONV1BIAS,
                    MPI_Recv i COMM_GDCONV2,
                    MPI_Recv i COMM_GDCONV2BIAS,
                    MPI_Recv i COMM_GDFC1NEURON,
                    MPI_Recv i COMM_GDFC1BIAS,
                    MPI_Recv i COMM_GDFC2NEURON,
                    MPI_Recv i COMM_GDFC2BIAS]) \<and>
       d_gpconv1 d' = axpy lr (incoming i COMM_GDCONV1) (d_gpconv1 d) \<and>
       d_gpconv1bias d' = axpy lr (incoming i COMM_GDCONV1BIAS) (d_gpconv1bias d) \<and>
       d_gpconv2 d' = axpy lr (incoming i COMM_GDCONV2) (d_gpconv2 d) \<and>
       d_gpconv2bias d' = axpy lr (incoming i COMM_GDCONV2BIAS) (d_gpconv2bias d) \<and>
       d_gpfc1 d' = axpy lr (incoming i COMM_GDFC1NEURON) (d_gpfc1 d) \<and>
       d_gpfc1bias d' = axpy lr (incoming i COMM_GDFC1BIAS) (d_gpfc1bias d) \<and>
       d_gpfc2 d' = axpy lr (incoming i COMM_GDFC2NEURON) (d_gpfc2 d) \<and>
       d_gpfc2bias d' = axpy lr (incoming i COMM_GDFC2BIAS) (d_gpfc2bias d)"
proof -
  let ?d1 = "d\<lparr>d_gdpconv1 := incoming i COMM_GDCONV1, d_gdpconv1bias := incoming i COMM_GDCONV1BIAS, d_gdpconv2 := incoming i COMM_GDCONV2, d_gdpconv2bias := incoming i COMM_GDCONV2BIAS, d_gdpfc1 := incoming i COMM_GDFC1NEURON, d_gdpfc1bias := incoming i COMM_GDFC1BIAS, d_gdpfc2 := incoming i COMM_GDFC2NEURON, d_gdpfc2bias := incoming i COMM_GDFC2BIAS\<rparr>"
  have sz1: "device_sized ctx c1 c2 ?d1"
    using sz ms by (simp add: device_sized_def messages_sized_def)
  from UpdateGlobalWeights_returns [OF sz1]
  obtain d' where run: "UpdateGlobalWeights ctx lr c1 c2 ?d1 = Some d'" by blast
  note G = UpdateGlobalWeights_closed [OF sz1 run]
  have body: "residual_body ctx lr c1 c2 incoming 0 i (d, tr) =
            Some (d', tr @
                   [MPI_Recv i COMM_GDCONV1,
                    MPI_Recv i COMM_GDCONV1BIAS,
                    MPI_Recv i COMM_GDCONV2,
                    MPI_Recv i COMM_GDCONV2BIAS,
                    MPI_Recv i COMM_GDFC1NEURON,
                    MPI_Recv i COMM_GDFC1BIAS,
                    MPI_Recv i COMM_GDFC2NEURON,
                    MPI_Recv i COMM_GDFC2BIAS])"
    using sz ms run i
    by (simp add: residual_body_def device_sized_def messages_sized_def MPI_Recv_into_all)
  show ?thesis
    using body G(1) G(4) G(7) G(10) G(13) G(16) G(19) G(22) by simp
qed

text \<open>
  Claim C4 fails on the code. The loop that collects the dual residuals runs
  \<open>i = 1 .. rank\<close> as well: the coordinator never enters it, posts no receive, never
  calls \<open>UpdateGlobalWeights\<close> and keeps its device buffers as they were, while every
  worker sends its eight residual tensors to rank 0. (The branch of the body that the
  coordinator never reaches is the one of \<open>coordinator_body_updates_global\<close>.)
\<close>

theorem coordinator_collects_nothing:
  "residual_collection ctx lr c1 c2 incoming 0 (d, tr) = Some (d, tr) \<and>
   residual_collection ctx lr c1 c2 incoming (Suc r) (d, tr) =
     Some (d, tr @ [MPI_Send 0 COMM_GDCONV1, MPI_Send 0 COMM_GDCONV1BIAS,
                    MPI_Send 0 COMM_GDCONV2, MPI_Send 0 COMM_GDCONV2BIAS,
                    MPI_Send 0 COMM_GDFC1NEURON, MPI_Send 0 COMM_GDFC1BIAS,
                    MPI_Send 0 COMM_GDFC2NEURON, MPI_Send 0 COMM_GDFC2BIAS])"
  using worker_residual [of ctx lr c1 c2 incoming r d tr] by (simp add: residual_collection_def)

section \<open>The learning rate\<close>

text \<open>
  Claim C9. For a loop counter \<open>iter \<ge> 0\<close> with \<open>1 + \<gamma> * iter\<close> positive, the learning
  rate computed in that iteration is \<open>base_rate * (1 + \<gamma> * iter) ^ (- power)\<close>: a value of
  the three flags and the counter alone. (On the reals: the rounding of \<open>pow\<close> and of the
  conversion to \<open>float\<close> is left out.)
\<close>

theorem learning_rate_schedule:
  "0 \<le> sint iter \<and> 0 < 1 + FLAGS_lr_gamma fl * real_of_int (sint iter) \<longrightarrow>
     learningRate fl iter =
       Some (spec_learning_rate (FLAGS_learning_rate fl) (FLAGS_lr_gamma fl) (FLAGS_lr_power fl)
               (nat (sint iter)))"
  by (simp add: learningRate_def pow_def spec_learning_rate_def)

theorem learning_rate_schedule_witness:
  "0 \<le> sint (5 :: int32) \<and>
   learningRate \<lparr>FLAGS_gpu = 0, FLAGS_iterations = 1000, FLAGS_save_data = False,
                  FLAGS_learning_rate = 1 / 100, FLAGS_lr_gamma = 1 / 10000,
                  FLAGS_lr_power = 3 / 4\<rparr> 5 =
     Some (spec_learning_rate (1 / 100) (1 / 10000) (3 / 4) 5)"
  using learning_rate_schedule [of 5 "\<lparr>FLAGS_gpu = 0, FLAGS_iterations = 1000,
                  FLAGS_save_data = False, FLAGS_learning_rate = 1 / 100,
                  FLAGS_lr_gamma = 1 / 10000, FLAGS_lr_power = 3 / 4\<rparr>"]
  by simp

section \<open>The exit code\<close>
















end
